theory Spec2Isabelle
  imports Main "HOL-Library.Sublist"
begin

text \<open>
  The compliance filter of the PEC example agent: the evaluation of one tool's compliance
  metadata against a deployment context (\<open>checkCompliance\<close>), the partition of a batch
  of tools (\<open>filterCompliantTools\<close>) and the audit entries written on the way. Mutation
  of the result object is state passing on a record; the module-level audit logger and the
  console are fields of an explicit process state.
\<close>

section \<open>Data model (ai-agent/src/pec-types.ts)\<close>

text \<open>
  The string-literal union types of the source are datatypes; each comes with the string
  the JavaScript value is, for the places where the code interpolates it into a message.
\<close>

datatype AiActClassification = Minimal | Limited | High | Unacceptable | Gpai | Gpai_systemic

fun classification_str :: "AiActClassification \<Rightarrow> string" where
  "classification_str Minimal = ''minimal''"
| "classification_str Limited = ''limited''"
| "classification_str High = ''high''"
| "classification_str Unacceptable = ''unacceptable''"
| "classification_str Gpai = ''gpai''"
| "classification_str Gpai_systemic = ''gpai_systemic''"

datatype GdprTransferMechanism = ADEQUACY | SCCS_2021 | BCR | DEROGATION_CONSENT

fun mechanism_str :: "GdprTransferMechanism \<Rightarrow> string" where
  "mechanism_str ADEQUACY = ''ADEQUACY''"
| "mechanism_str SCCS_2021 = ''SCCS_2021''"
| "mechanism_str BCR = ''BCR''"
| "mechanism_str DEROGATION_CONSENT = ''DEROGATION_CONSENT''"

datatype ControllerProcessorStatus = Controller | Processor | Joint_controller

datatype UpdateFrequency = Real_time | Daily | Weekly | Monthly

datatype UnknownHandling = Strict | Permissive | Escalate

datatype LegacyPolicy = Allow | Warn | Block

text \<open>
  \<open>PecComplianceMetadata\<close>. Nested objects are flattened: the field
  \<open>ai_act_status_classification\<close> is \<open>compliance.ai_act_status.classification\<close>.
\<close>

record PecComplianceMetadata =
  pec_version :: string
  processing_locations :: "string list"
  data_retention_days :: int
  certifications :: "string list"
  ai_act_status_classification :: AiActClassification
  ai_act_status_conformity_assessed :: bool
  ai_act_status_notified_body :: "string option"
  gdpr_controller_processor_status :: ControllerProcessorStatus
  gdpr_transfer_mechanisms :: "GdprTransferMechanism list"
  gdpr_dpa_registered :: bool
  gdpr_special_categories_processed :: bool
  suitable_for :: "string list"
  unsuitable_for :: "string list"
  supply_chain_disclosure :: bool
  metadata_currency_last_updated :: string
  metadata_currency_update_frequency :: UpdateFrequency
  metadata_currency_next_scheduled_review :: "string option"

text \<open>
  \<open>context.gdpr_requirements\<close> and its two fields are tested for presence by the code
  (\<open>if (context.gdpr_requirements)\<close>, \<open>!requiredMechanisms\<close>,
  \<open>=== undefined\<close>), so all three are optional here.
\<close>

record GdprRequirements =
  transfer_mechanisms_required :: "GdprTransferMechanism list option"
  special_categories_allowed :: "bool option"

record DeploymentContext =
  governing_law :: string
  jurisdiction :: string
  data_residency_required :: "string list"
  data_residency_prohibited :: "string list"
  gdpr_requirements :: "GdprRequirements option"
  risk_classification_maximum_permitted :: AiActClassification
  risk_classification_human_escalation :: "AiActClassification option"
  sectors_prohibited :: "string list"
  certifications_required_any :: "string list"
  unknown_handling_processing_locations :: UnknownHandling
  unknown_handling_certifications :: UnknownHandling
  unknown_handling_ai_act_status :: UnknownHandling
  legacy_servers_policy :: LegacyPolicy
  legacy_servers_log_invocations :: bool

record ComplianceCheckResult =
  compliant :: bool
  reasons :: "string list"
  warnings :: "string list"

datatype AuditEventType =
    Tool_evaluation
  | Tool_approved
  | Tool_rejected
  | Tool_invocation
  | Tool_invocation_blocked
  | Compliance_warning
  | Agent_initialisation

text \<open>
  \<open>AuditLogEntry\<close>. The fields \<open>id\<close> and \<open>timestamp\<close> are drawn from the runtime
  (\<open>randomUUID()\<close>, \<open>new Date()\<close>) and are left out: nothing below reads them.
\<close>

record AuditLogEntry =
  event_type :: AuditEventType
  tool_name :: "string option"
  entry_governing_law :: string
  entry_jurisdiction :: string
  entry_max_risk :: AiActClassification
  compliance_metadata :: "PecComplianceMetadata option"
  evaluation_result :: "ComplianceCheckResult option"
  reasoning_trace :: "string list"
  entry_session_id :: string

record AuditLog =
  entries :: "AuditLogEntry list"
  session_id :: string
  started_at :: string
  deployment_context_hash :: string

text \<open>The class \<open>PecAuditLogger\<close>: its two private fields.\<close>

record PecAuditLogger =
  logger_log :: AuditLog
  logger_context :: DeploymentContext

section \<open>JavaScript string and array primitives\<close>

text \<open>
  \<open>String.prototype.toUpperCase\<close> on ASCII text: the letters a to z are mapped to
  A to Z, every other character is kept. Location codes are ISO 3166 style ASCII codes.
\<close>

definition upper_char :: "char \<Rightarrow> char" where
  "upper_char c =
     (case map_of (zip ''abcdefghijklmnopqrstuvwxyz'' ''ABCDEFGHIJKLMNOPQRSTUVWXYZ'') c of
        Some u \<Rightarrow> u
      | None \<Rightarrow> c)"

definition toUpperCase :: "string \<Rightarrow> string" where
  "toUpperCase s = map upper_char s"

text \<open>\<open>Array.prototype.join\<close> on an array of strings.\<close>

fun join :: "string \<Rightarrow> string list \<Rightarrow> string" where
  "join sep [] = []"
| "join sep [x] = x"
| "join sep (x # y # ys) = x @ sep @ join sep (y # ys)"

text \<open>\<open>String.prototype.includes\<close>: the argument occurs as a contiguous substring.\<close>

definition str_includes :: "string \<Rightarrow> string \<Rightarrow> bool" where
  "str_includes s sub = sublist sub s"

text \<open>The apostrophe that the messages put around interpolated values.\<close>

abbreviation apostrophe :: string where
  "apostrophe \<equiv> [CHR 0x27]"

text \<open>A boolean interpolated into a template string.\<close>

definition bool_str :: "bool \<Rightarrow> string" where
  "bool_str b = (if b then ''true'' else ''false'')"

section \<open>Jurisdiction expansion (ai-agent/src/compliance-filter.ts, lines 12-55)\<close>

definition EU_COUNTRIES :: "string list" where
  "EU_COUNTRIES = [''DE'', ''FR'', ''IE'', ''NL'', ''BE'', ''AT'', ''ES'', ''IT'', ''PT'',
     ''PL'', ''SE'', ''DK'', ''FI'', ''CZ'', ''RO'', ''HU'', ''BG'', ''GR'', ''SK'', ''HR'',
     ''SI'', ''LT'', ''LV'', ''EE'', ''CY'', ''LU'', ''MT'']"

definition EEA_COUNTRIES :: "string list" where
  "EEA_COUNTRIES = EU_COUNTRIES @ [''NO'', ''IS'', ''LI'']"

definition ADEQUACY_COUNTRIES :: "string list" where
  "ADEQUACY_COUNTRIES = [''GB'', ''CH'', ''JP'', ''KR'', ''CA'', ''NZ'', ''IL'', ''AR'', ''UY'']"

fun RISK_LEVELS :: "AiActClassification \<Rightarrow> nat" where
  "RISK_LEVELS Minimal = 1"
| "RISK_LEVELS Limited = 2"
| "RISK_LEVELS Gpai = 3"
| "RISK_LEVELS High = 4"
| "RISK_LEVELS Gpai_systemic = 5"
| "RISK_LEVELS Unacceptable = 6"

definition expandJurisdiction :: "string \<Rightarrow> string list" where
  "expandJurisdiction code =
     (let upperCode = toUpperCase code in
      if upperCode = ''EU'' then EU_COUNTRIES
      else if upperCode = ''EEA'' then EEA_COUNTRIES
      else if upperCode = ''ADEQUACY'' then EEA_COUNTRIES @ ADEQUACY_COUNTRIES
      else [upperCode])"

text \<open>
  The two \<open>forEach\<close> loops that fill a \<open>Set\<close>: every code of the list is expanded and
  every member of the expansion is added.
\<close>

definition expandAll :: "string list \<Rightarrow> string set" where
  "expandAll codes = fold (\<lambda>code acc. fold insert (expandJurisdiction code) acc) codes {}"

definition isLocationAllowed :: "string \<Rightarrow> string list \<Rightarrow> string list \<Rightarrow> bool" where
  "isLocationAllowed location required prohibited =
     (let allowedLocations = expandAll required;
          blockedLocations = expandAll prohibited;
          upperLocation = toUpperCase location
      in if upperLocation \<in> blockedLocations then False
         else upperLocation \<in> allowedLocations)"

section \<open>The GDPR helper checks (lines 57-102)\<close>

record CheckOutcome =
  valid :: bool
  reason :: "string option"

definition checkTransferMechanisms ::
  "GdprTransferMechanism list \<Rightarrow> GdprTransferMechanism list option \<Rightarrow> CheckOutcome" where
  "checkTransferMechanisms toolMechanisms requiredMechanisms =
     (case requiredMechanisms of
        None \<Rightarrow> \<lparr>valid = True, reason = None\<rparr>
      | Some req \<Rightarrow>
          if length req = 0 then \<lparr>valid = True, reason = None\<rparr>
          else if length toolMechanisms = 0 then
            \<lparr>valid = False,
             reason = Some (''Tool declares no GDPR transfer mechanisms but context requires one of: ''
                            @ join '', '' (map mechanism_str req))\<rparr>
          else if \<not> list_ex (\<lambda>mechanism. mechanism \<in> set req) toolMechanisms then
            \<lparr>valid = False,
             reason = Some (''Tool transfer mechanisms ['' @ join '', '' (map mechanism_str toolMechanisms)
                            @ ''] do not include any required mechanism: ''
                            @ join '', '' (map mechanism_str req))\<rparr>
          else \<lparr>valid = True, reason = None\<rparr>)"

definition checkSpecialCategories :: "bool \<Rightarrow> bool option \<Rightarrow> CheckOutcome" where
  "checkSpecialCategories toolProcessesSpecialCategories contextAllowsSpecialCategories =
     (case contextAllowsSpecialCategories of
        None \<Rightarrow> \<lparr>valid = True, reason = None\<rparr>
      | Some allows \<Rightarrow>
          if toolProcessesSpecialCategories \<and> \<not> allows then
            \<lparr>valid = False,
             reason = Some ''Tool processes GDPR special categories (Art 9) but deployment context prohibits this''\<rparr>
          else \<lparr>valid = True, reason = None\<rparr>)"

text \<open>
  The test \<open>!check.valid && check.reason\<close>: the reason is there and is not the empty
  string.
\<close>

definition failed_with :: "CheckOutcome \<Rightarrow> string option" where
  "failed_with chk =
     (case reason chk of
        None \<Rightarrow> None
      | Some r \<Rightarrow> if \<not> valid chk \<and> r \<noteq> [] then Some r else None)"

section \<open>The audit logger (ai-agent/src/audit-logger.ts)\<close>

definition createEntry ::
  "PecAuditLogger \<Rightarrow> AuditEventType \<Rightarrow> string option \<Rightarrow> PecComplianceMetadata option \<Rightarrow>
   ComplianceCheckResult option \<Rightarrow> string list \<Rightarrow> AuditLogEntry" where
  "createEntry this eventType toolName compliance evaluationResult reasoningTrace =
     \<lparr>event_type = eventType,
      tool_name = toolName,
      entry_governing_law = governing_law (logger_context this),
      entry_jurisdiction = jurisdiction (logger_context this),
      entry_max_risk = risk_classification_maximum_permitted (logger_context this),
      compliance_metadata = compliance,
      evaluation_result = evaluationResult,
      reasoning_trace = reasoningTrace,
      entry_session_id = session_id (logger_log this)\<rparr>"

text \<open>\<open>this.log.entries.push(entry)\<close>\<close>

definition push_entry :: "AuditLogEntry \<Rightarrow> PecAuditLogger \<Rightarrow> PecAuditLogger" where
  "push_entry entry this =
     this\<lparr>logger_log := (logger_log this)\<lparr>entries := entries (logger_log this) @ [entry]\<rparr>\<rparr>"

text \<open>
  One section of the trace ends with a verdict line: \<open>FAIL\<close> with the reasons that
  contain the category's marker, or else the line given.
\<close>

definition verdict :: "string \<Rightarrow> string list \<Rightarrow> string \<Rightarrow> string" where
  "verdict marker rs otherwise =
     (let violations = filter (\<lambda>r. str_includes r marker) rs in
      if length violations > 0 then ''FAIL: '' @ join ''; '' violations else otherwise)"

text \<open>\<open>x || 'None'\<close> on a string: the empty string is falsy.\<close>

definition or_else :: "string \<Rightarrow> string \<Rightarrow> string" where
  "or_else s d = (if s = [] then d else s)"

definition buildEvaluationTrace ::
  "PecAuditLogger \<Rightarrow> string \<Rightarrow> PecComplianceMetadata \<Rightarrow> ComplianceCheckResult \<Rightarrow> string list" where
  "buildEvaluationTrace this toolName compliance result =
     (let ctx = logger_context this;
          rs = reasons result
      in
      [''Evaluating tool: '' @ toolName,
       ''PEC version: '' @ pec_version compliance,
       [],
       ''--- Location Check ---'',
       ''Tool processing locations: '' @ join '', '' (processing_locations compliance),
       ''Context required locations: '' @ join '', '' (data_residency_required ctx),
       ''Context prohibited locations: '' @ join '', '' (data_residency_prohibited ctx),
       verdict ''Processing location'' rs ''PASS: All processing locations acceptable'',
       [],
       ''--- Risk Classification Check ---'',
       ''Tool classification: '' @ classification_str (ai_act_status_classification compliance),
       ''Maximum permitted: '' @ classification_str (risk_classification_maximum_permitted ctx),
       verdict ''risk classification'' rs ''PASS: Risk classification within limits'',
       [],
       ''--- Conformity Assessment Check ---'',
       ''Conformity assessed: '' @ bool_str (ai_act_status_conformity_assessed compliance),
       ''Notified body: '' @
          or_else (case ai_act_status_notified_body compliance of None \<Rightarrow> [] | Some b \<Rightarrow> b) ''None'',
       verdict ''conformity assessment'' rs
         (if \<not> ai_act_status_conformity_assessed compliance
          then ''WARNING: Tool has not undergone conformity assessment''
          else ''PASS: Conformity assessment complete''),
       [],
       ''--- GDPR Transfer Mechanism Check ---'',
       ''Tool transfer mechanisms: '' @
          or_else (join '', '' (map mechanism_str (gdpr_transfer_mechanisms compliance))) ''None'',
       ''Context required mechanisms: '' @
          or_else (case gdpr_requirements ctx of
                     None \<Rightarrow> []
                   | Some g \<Rightarrow> (case transfer_mechanisms_required g of
                                  None \<Rightarrow> []
                                | Some req \<Rightarrow> join '', '' (map mechanism_str req)))
                  ''None specified'',
       verdict ''transfer mechanism'' rs ''PASS: Transfer mechanisms acceptable'',
       [],
       ''--- Special Categories Check ---'',
       ''Tool processes special categories: '' @
          bool_str (gdpr_special_categories_processed compliance),
       ''Context allows special categories: '' @
          (case gdpr_requirements ctx of
             None \<Rightarrow> ''Not specified''
           | Some g \<Rightarrow> (case special_categories_allowed g of
                          None \<Rightarrow> ''Not specified''
                        | Some b \<Rightarrow> bool_str b)),
       verdict ''special categories'' rs ''PASS: Special categories handling acceptable'',
       [],
       ''--- Certification Check ---'',
       ''Tool certifications: '' @ or_else (join '', '' (certifications compliance)) ''None'',
       ''Context required (any): '' @ join '', '' (certifications_required_any ctx),
       verdict ''certification'' rs ''PASS: Certification requirements met'',
       [],
       ''--- Sector Check ---'',
       ''Tool suitable for: '' @ join '', '' (suitable_for compliance),
       ''Context prohibited sectors: '' @ join '', '' (sectors_prohibited ctx),
       verdict ''prohibited sector'' rs ''PASS: No prohibited sector conflicts'',
       [],
       ''--- Final Decision ---'',
       ''Compliant: '' @ bool_str (compliant result),
       ''Rejection reasons: '' @ (if length rs > 0 then join ''; '' rs else ''None''),
       ''Warnings: '' @
          (if length (warnings result) > 0 then join ''; '' (warnings result) else ''None'')])"

definition logToolEvaluation ::
  "string \<Rightarrow> PecComplianceMetadata \<Rightarrow> ComplianceCheckResult \<Rightarrow> PecAuditLogger \<Rightarrow> PecAuditLogger" where
  "logToolEvaluation toolName compliance result this =
     (let reasoningTrace = buildEvaluationTrace this toolName compliance result;
          eventType = (if compliant result then Tool_approved else Tool_rejected);
          entry = createEntry this eventType (Some toolName) (Some compliance) (Some result)
                    reasoningTrace
      in push_entry entry this)"

definition logComplianceWarning ::
  "string \<Rightarrow> PecComplianceMetadata \<Rightarrow> string list \<Rightarrow> PecAuditLogger \<Rightarrow> PecAuditLogger" where
  "logComplianceWarning toolName compliance ws this =
     (let entry = createEntry this Compliance_warning (Some toolName) (Some compliance)
                    (Some \<lparr>compliant = True, reasons = [], warnings = ws\<rparr>)
                    ((''Compliance warnings for tool: '' @ toolName) #
                       map (\<lambda>w. ''Warning: '' @ w) ws)
      in push_entry entry this)"

section \<open>The process state\<close>

text \<open>
  What the evaluation reads and writes outside its arguments: the module variable
  \<open>globalAuditLogger\<close> (\<open>null\<close> until \<open>initAuditLogger\<close> is called) and the console.
  A console line is kept as the tool name and the array printed after the message.
\<close>

datatype ConsoleLine =
    Approved_with_warnings string "string list"
  | Rejected_line string "string list"

record World =
  globalAuditLogger :: "PecAuditLogger option"
  console :: "ConsoleLine list"

text \<open>
  \<open>initAuditLogger\<close> with the constructor of \<open>PecAuditLogger\<close>. The session id
  (\<open>randomUUID()\<close>), the start time (\<open>new Date()\<close>) and the SHA-256 fingerprint of
  the context come from the runtime and are arguments here.
\<close>

definition initAuditLogger ::
  "string \<Rightarrow> string \<Rightarrow> string \<Rightarrow> DeploymentContext \<Rightarrow> World \<Rightarrow> World" where
  "initAuditLogger sessionId now hash ctx w =
     w\<lparr>globalAuditLogger :=
          Some \<lparr>logger_log = \<lparr>entries = [], session_id = sessionId, started_at = now,
                                deployment_context_hash = hash\<rparr>,
                logger_context = ctx\<rparr>\<rparr>"

section \<open>checkCompliance (ai-agent/src/compliance-filter.ts, lines 104-217)\<close>

text \<open>\<open>result.compliant = false; result.reasons.push(msg)\<close>\<close>

definition push_reason :: "string \<Rightarrow> ComplianceCheckResult \<Rightarrow> ComplianceCheckResult" where
  "push_reason msg result = result\<lparr>compliant := False, reasons := reasons result @ [msg]\<rparr>"

text \<open>\<open>result.warnings.push(msg)\<close>\<close>

definition push_warning :: "string \<Rightarrow> ComplianceCheckResult \<Rightarrow> ComplianceCheckResult" where
  "push_warning msg result = result\<lparr>warnings := warnings result @ [msg]\<rparr>"

definition initial_result :: ComplianceCheckResult where
  "initial_result = \<lparr>compliant = True, reasons = [], warnings = []\<rparr>"

text \<open>Lines 115-123: no metadata.\<close>

definition legacyOutcome :: "DeploymentContext \<Rightarrow> ComplianceCheckResult \<Rightarrow> ComplianceCheckResult" where
  "legacyOutcome ctx result =
     (if legacy_servers_policy ctx = Block then
        push_reason ''Tool lacks PEC compliance metadata and legacy servers are blocked'' result
      else if legacy_servers_policy ctx = Warn then
        push_warning ''Tool lacks PEC compliance metadata (legacy server)'' result
      else result)"

text \<open>Lines 125-131: metadata whose \<open>pec_version\<close> is the empty string.\<close>

definition unversionedOutcome :: "DeploymentContext \<Rightarrow> ComplianceCheckResult \<Rightarrow> ComplianceCheckResult" where
  "unversionedOutcome ctx result =
     (if legacy_servers_policy ctx = Block then
        push_reason ''Tool does not declare PEC version'' result
      else result)"

text \<open>Lines 133-138: the loop over the processing locations.\<close>

definition location_reason :: "string \<Rightarrow> string" where
  "location_reason location =
     ''Processing location '' @ apostrophe @ location @ apostrophe
       @ '' is not allowed under deployment context''"

definition locationCheck ::
  "PecComplianceMetadata \<Rightarrow> DeploymentContext \<Rightarrow> ComplianceCheckResult \<Rightarrow> ComplianceCheckResult" where
  "locationCheck compliance ctx result =
     fold (\<lambda>location result.
             if \<not> isLocationAllowed location (data_residency_required ctx)
                    (data_residency_prohibited ctx)
             then push_reason (location_reason location) result
             else result)
          (processing_locations compliance) result"

text \<open>Lines 140-148: the risk threshold.\<close>

definition risk_reason :: "AiActClassification \<Rightarrow> AiActClassification \<Rightarrow> string" where
  "risk_reason toolClass maxClass =
     ''Tool risk classification '' @ apostrophe @ classification_str toolClass @ apostrophe
       @ '' exceeds maximum permitted '' @ apostrophe @ classification_str maxClass @ apostrophe"

definition riskCheck ::
  "PecComplianceMetadata \<Rightarrow> DeploymentContext \<Rightarrow> ComplianceCheckResult \<Rightarrow> ComplianceCheckResult" where
  "riskCheck compliance ctx result =
     (let maxPermittedLevel = RISK_LEVELS (risk_classification_maximum_permitted ctx);
          toolRiskLevel = RISK_LEVELS (ai_act_status_classification compliance)
      in if toolRiskLevel > maxPermittedLevel then
           push_reason (risk_reason (ai_act_status_classification compliance)
                          (risk_classification_maximum_permitted ctx)) result
         else result)"

text \<open>Lines 150-157: conformity assessment.\<close>

definition conformityCheck ::
  "PecComplianceMetadata \<Rightarrow> DeploymentContext \<Rightarrow> ComplianceCheckResult \<Rightarrow> ComplianceCheckResult" where
  "conformityCheck compliance ctx result =
     (if \<not> ai_act_status_conformity_assessed compliance then
        (if unknown_handling_ai_act_status ctx = Strict then
           push_reason ''Tool has not undergone conformity assessment'' result
         else push_warning ''Tool has not undergone conformity assessment'' result)
      else result)"

text \<open>Lines 159-177: the two GDPR checks, run only under \<open>context.gdpr_requirements\<close>.\<close>

definition transferCheck ::
  "PecComplianceMetadata \<Rightarrow> GdprRequirements \<Rightarrow> ComplianceCheckResult \<Rightarrow> ComplianceCheckResult" where
  "transferCheck compliance g result =
     (case failed_with (checkTransferMechanisms (gdpr_transfer_mechanisms compliance)
                          (transfer_mechanisms_required g)) of
        Some r \<Rightarrow> push_reason r result
      | None \<Rightarrow> result)"

definition specialCatCheck ::
  "PecComplianceMetadata \<Rightarrow> GdprRequirements \<Rightarrow> ComplianceCheckResult \<Rightarrow> ComplianceCheckResult" where
  "specialCatCheck compliance g result =
     (case failed_with (checkSpecialCategories (gdpr_special_categories_processed compliance)
                          (special_categories_allowed g)) of
        Some r \<Rightarrow> push_reason r result
      | None \<Rightarrow> result)"

definition gdprCheck ::
  "PecComplianceMetadata \<Rightarrow> DeploymentContext \<Rightarrow> ComplianceCheckResult \<Rightarrow> ComplianceCheckResult" where
  "gdprCheck compliance ctx result =
     (case gdpr_requirements ctx of
        None \<Rightarrow> result
      | Some g \<Rightarrow> specialCatCheck compliance g (transferCheck compliance g result))"

text \<open>Lines 179-184: the loop over the prohibited sectors.\<close>

definition sector_reason :: "string \<Rightarrow> string" where
  "sector_reason prohibited =
     ''Tool is suitable for prohibited sector: '' @ apostrophe @ prohibited @ apostrophe"

definition sectorCheck ::
  "PecComplianceMetadata \<Rightarrow> DeploymentContext \<Rightarrow> ComplianceCheckResult \<Rightarrow> ComplianceCheckResult" where
  "sectorCheck compliance ctx result =
     fold (\<lambda>prohibited result.
             if prohibited \<in> set (suitable_for compliance)
             then push_reason (sector_reason prohibited) result
             else result)
          (sectors_prohibited ctx) result"

text \<open>Lines 186-201: certifications.\<close>

definition certificationCheck ::
  "PecComplianceMetadata \<Rightarrow> DeploymentContext \<Rightarrow> ComplianceCheckResult \<Rightarrow> ComplianceCheckResult" where
  "certificationCheck compliance ctx result =
     (let hasCertification =
            list_ex (\<lambda>cert. cert \<in> set (certifications compliance))
              (certifications_required_any ctx)
      in if \<not> hasCertification \<and> length (certifications_required_any ctx) > 0 then
           (if unknown_handling_certifications ctx = Strict then
              push_reason (''Tool lacks required certifications. Required one of: ''
                             @ join '', '' (certifications_required_any ctx)) result
            else
              push_warning (''Tool lacks preferred certifications: ''
                              @ join '', '' (certifications_required_any ctx)) result)
         else result)"

text \<open>Lines 203-205: supply chain disclosure.\<close>

definition supplyChainCheck ::
  "PecComplianceMetadata \<Rightarrow> ComplianceCheckResult \<Rightarrow> ComplianceCheckResult" where
  "supplyChainCheck compliance result =
     (if \<not> supply_chain_disclosure compliance then
        push_warning ''Tool has not disclosed supply chain dependencies'' result
      else result)"

text \<open>Lines 207-214: the audit entries, written only when a logger is installed.\<close>

definition auditEvaluation ::
  "string \<Rightarrow> PecComplianceMetadata \<Rightarrow> ComplianceCheckResult \<Rightarrow> World \<Rightarrow> World" where
  "auditEvaluation toolName compliance result w =
     (case globalAuditLogger w of
        None \<Rightarrow> w
      | Some auditLogger \<Rightarrow>
          (let auditLogger = logToolEvaluation toolName compliance result auditLogger;
               auditLogger =
                 (if compliant result \<and> length (warnings result) > 0
                  then logComplianceWarning toolName compliance (warnings result) auditLogger
                  else auditLogger)
           in w\<lparr>globalAuditLogger := Some auditLogger\<rparr>))"

text \<open>The battery of lines 133-205, in the order of the source.\<close>

definition runChecks :: "PecComplianceMetadata \<Rightarrow> DeploymentContext \<Rightarrow> ComplianceCheckResult" where
  "runChecks compliance ctx =
     (let result = initial_result;
          result = locationCheck compliance ctx result;
          result = riskCheck compliance ctx result;
          result = conformityCheck compliance ctx result;
          result = gdprCheck compliance ctx result;
          result = sectorCheck compliance ctx result;
          result = certificationCheck compliance ctx result;
          result = supplyChainCheck compliance result
      in result)"

definition checkCompliance ::
  "string \<Rightarrow> PecComplianceMetadata option \<Rightarrow> DeploymentContext \<Rightarrow> World \<Rightarrow>
   ComplianceCheckResult \<times> World" where
  "checkCompliance toolName compliance ctx w =
     (case compliance of
        None \<Rightarrow> (legacyOutcome ctx initial_result, w)
      | Some c \<Rightarrow>
          if pec_version c = [] then (unversionedOutcome ctx initial_result, w)
          else (let result = runChecks c ctx
                in (result, auditEvaluation toolName c result w)))"

section \<open>filterCompliantTools (lines 219-241)\<close>

text \<open>
  The type parameter \<open>T extends { name; compliance? }\<close> is a record scheme: any
  extension of \<open>Tool\<close>.
\<close>

record Tool =
  name :: string
  compliance :: "PecComplianceMetadata option"

record 'a FilterState =
  compliantTools :: "'a list"
  rejected :: "('a \<times> ComplianceCheckResult) list"
  world :: World

definition filterStep ::
  "DeploymentContext \<Rightarrow> 'a Tool_scheme \<Rightarrow> 'a Tool_scheme FilterState \<Rightarrow> 'a Tool_scheme FilterState" where
  "filterStep ctx tool st =
     (let (result, w) = checkCompliance (name tool) (compliance tool) ctx (world st)
      in if compliant result then
           st\<lparr>compliantTools := compliantTools st @ [tool],
              world := (if length (warnings result) > 0
                        then w\<lparr>console := console w @ [Approved_with_warnings (name tool) (warnings result)]\<rparr>
                        else w)\<rparr>
         else
           st\<lparr>rejected := rejected st @ [(tool, result)],
              world := w\<lparr>console := console w @ [Rejected_line (name tool) (reasons result)]\<rparr>\<rparr>)"

definition filterCompliantTools ::
  "'a Tool_scheme list \<Rightarrow> DeploymentContext \<Rightarrow> World \<Rightarrow> 'a Tool_scheme FilterState" where
  "filterCompliantTools tools ctx w =
     fold (filterStep ctx) tools \<lparr>compliantTools = [], rejected = [], world = w\<rparr>"

section \<open>Values of the demo (deployment-context.ts, third-party-servers.ts)\<close>

definition euDeploymentContext :: DeploymentContext where
  "euDeploymentContext =
     \<lparr>governing_law = ''EU'',
      jurisdiction = ''DE'',
      data_residency_required = [''EU'', ''EEA'', ''ADEQUACY''],
      data_residency_prohibited = [''US'', ''CN'', ''RU''],
      gdpr_requirements =
        Some \<lparr>transfer_mechanisms_required = Some [ADEQUACY, SCCS_2021, BCR],
              special_categories_allowed = Some False\<rparr>,
      risk_classification_maximum_permitted = Limited,
      risk_classification_human_escalation = Some Limited,
      sectors_prohibited =
        [''healthcare_diagnosis'', ''legal_advice'', ''credit_scoring'',
         ''biometric_identification''],
      certifications_required_any = [''ISO_27001'', ''SOC2_TYPE_II''],
      unknown_handling_processing_locations = Strict,
      unknown_handling_certifications = Permissive,
      unknown_handling_ai_act_status = Strict,
      legacy_servers_policy = Block,
      legacy_servers_log_invocations = True\<rparr>"

definition acmeTranslationCompliance :: PecComplianceMetadata where
  "acmeTranslationCompliance =
     \<lparr>pec_version = ''1.0'',
      processing_locations = [''IE'', ''FR''],
      data_retention_days = 7,
      certifications = [''ISO_27001'', ''SOC2_TYPE_II''],
      ai_act_status_classification = Minimal,
      ai_act_status_conformity_assessed = True,
      ai_act_status_notified_body = Some ''BSI_Group'',
      gdpr_controller_processor_status = Processor,
      gdpr_transfer_mechanisms = [ADEQUACY],
      gdpr_dpa_registered = True,
      gdpr_special_categories_processed = False,
      suitable_for = [''translation'', ''localisation'', ''content''],
      unsuitable_for = [''legal_documents'', ''medical_records''],
      supply_chain_disclosure = True,
      metadata_currency_last_updated = ''2026-01-10T00:00:00Z'',
      metadata_currency_update_frequency = Weekly,
      metadata_currency_next_scheduled_review = None\<rparr>"

definition beijingCloudCompliance :: PecComplianceMetadata where
  "beijingCloudCompliance =
     \<lparr>pec_version = ''1.0'',
      processing_locations = [''CN''],
      data_retention_days = 180,
      certifications = [''MLPS_LEVEL_3''],
      ai_act_status_classification = Limited,
      ai_act_status_conformity_assessed = False,
      ai_act_status_notified_body = None,
      gdpr_controller_processor_status = Controller,
      gdpr_transfer_mechanisms = [],
      gdpr_dpa_registered = False,
      gdpr_special_categories_processed = False,
      suitable_for = [''general_compute'', ''batch_processing''],
      unsuitable_for = [''eu_personal_data'', ''gdpr_scope'', ''us_government''],
      supply_chain_disclosure = False,
      metadata_currency_last_updated = ''2025-11-01T00:00:00Z'',
      metadata_currency_update_frequency = Monthly,
      metadata_currency_next_scheduled_review = None\<rparr>"

text \<open>
  A variant of the translation tool that breaks two rules of the EU context and no other:
  it is classified \<open>high\<close> and declared suitable for \<open>legal_advice\<close>.
\<close>

definition highRiskLegalTool :: PecComplianceMetadata where
  "highRiskLegalTool = acmeTranslationCompliance
     \<lparr>ai_act_status_classification := High, suitable_for := [''legal_advice'']\<rparr>"

text \<open>The process before and after \<open>initAuditLogger(euDeploymentContext)\<close>.\<close>

definition no_logger :: World where
  "no_logger = \<lparr>globalAuditLogger = None, console = []\<rparr>"

definition eu_session :: World where
  "eu_session = initAuditLogger ''session-1'' ''2026-01-10T00:00:00Z'' ''0123456789abcdef''
                  euDeploymentContext no_logger"

section \<open>The specification's own notions\<close>

text \<open>
  The fixed six-level order of the specification,
  minimal < limited < gpai < high < gpai_systemic < unacceptable: \<open>a\<close> is strictly
  below \<open>b\<close> when \<open>b\<close> comes after \<open>a\<close> in the list.
\<close>

definition risk_order :: "AiActClassification list" where
  "risk_order = [Minimal, Limited, Gpai, High, Gpai_systemic, Unacceptable]"

definition strictly_below :: "AiActClassification \<Rightarrow> AiActClassification \<Rightarrow> bool" where
  "strictly_below a b = (b \<in> set (tl (dropWhile (\<lambda>x. x \<noteq> a) risk_order)))"


text \<open>
  Merging two buckets by original positions: the verdict list says, position by position,
  from which bucket the next tool is taken.
\<close>

fun merge_by_position :: "bool list \<Rightarrow> 'a list \<Rightarrow> 'a list \<Rightarrow> 'a list" where
  "merge_by_position [] xs ys = []"
| "merge_by_position (True # bs) (x # xs) ys = x # merge_by_position bs xs ys"
| "merge_by_position (False # bs) xs (y # ys) = y # merge_by_position bs xs ys"
| "merge_by_position (True # bs) [] ys = []"
| "merge_by_position (False # bs) xs [] = []"

text \<open>
  The audit events one tool of a batch gives rise to when a logger is installed, as kind
  and tool name: nothing for a tool without metadata or with an empty version string,
  otherwise the evaluation entry, followed by the warning entry when the tool is admitted
  with warnings.
\<close>

definition audit_events ::
  "DeploymentContext \<Rightarrow> 'a Tool_scheme \<Rightarrow> (AuditEventType \<times> string option) list" where
  "audit_events ctx tool =
     (case compliance tool of
        None \<Rightarrow> []
      | Some c \<Rightarrow>
          if pec_version c = [] then []
          else (let result = runChecks c ctx in
                (if compliant result then Tool_approved else Tool_rejected, Some (name tool)) #
                (if compliant result \<and> warnings result \<noteq> []
                 then [(Compliance_warning, Some (name tool))] else [])))"

definition event_summary :: "World \<Rightarrow> (AuditEventType \<times> string option) list option" where
  "event_summary w =
     map_option (\<lambda>l. map (\<lambda>e. (event_type e, tool_name e)) (entries (logger_log l)))
       (globalAuditLogger w)"

section \<open>What each check does to the result\<close>

lemma push_reason_simps [simp]:
  "reasons (push_reason m r) = reasons r @ [m]"
  "compliant (push_reason m r) = False"
  "warnings (push_reason m r) = warnings r"
  by (simp_all add: push_reason_def)

lemma push_warning_simps [simp]:
  "reasons (push_warning m r) = reasons r"
  "compliant (push_warning m r) = compliant r"
  "warnings (push_warning m r) = warnings r @ [m]"
  by (simp_all add: push_warning_def)

lemma initial_result_simps [simp]:
  "reasons initial_result = []"
  "compliant initial_result = True"
  "warnings initial_result = []"
  by (simp_all add: initial_result_def)

lemma fold_push_reasons:
  "reasons (fold (\<lambda>x r. if P x then push_reason (f x) r else r) xs r)
     = reasons r @ map f (filter P xs)"
  by (induction xs arbitrary: r) simp_all

lemma fold_push_warnings:
  "warnings (fold (\<lambda>x r. if P x then push_reason (f x) r else r) xs r) = warnings r"
  by (induction xs arbitrary: r) simp_all

lemma fold_push_compliant:
  "compliant (fold (\<lambda>x r. if P x then push_reason (f x) r else r) xs r)
     = (compliant r \<and> filter P xs = [])"
  by (induction xs arbitrary: r) simp_all

lemma locationCheck_reasons:
  "reasons (locationCheck c ctx r) = reasons r @ map location_reason
     (filter (\<lambda>l. \<not> isLocationAllowed l (data_residency_required ctx) (data_residency_prohibited ctx))
        (processing_locations c))"
  unfolding locationCheck_def by (rule fold_push_reasons)

lemma locationCheck_warnings: "warnings (locationCheck c ctx r) = warnings r"
  unfolding locationCheck_def by (rule fold_push_warnings)

lemma locationCheck_compliant:
  "compliant (locationCheck c ctx r) = (compliant r \<and> reasons (locationCheck c ctx initial_result) = [])"
  unfolding locationCheck_def by (simp add: fold_push_compliant fold_push_reasons)

lemma sectorCheck_reasons:
  "reasons (sectorCheck c ctx r) = reasons r @ map sector_reason
     (filter (\<lambda>p. p \<in> set (suitable_for c)) (sectors_prohibited ctx))"
  unfolding sectorCheck_def by (rule fold_push_reasons)

lemma sectorCheck_warnings: "warnings (sectorCheck c ctx r) = warnings r"
  unfolding sectorCheck_def by (rule fold_push_warnings)

lemma sectorCheck_compliant:
  "compliant (sectorCheck c ctx r) = (compliant r \<and> reasons (sectorCheck c ctx initial_result) = [])"
  unfolding sectorCheck_def by (simp add: fold_push_compliant fold_push_reasons)

lemma riskCheck_reasons:
  "reasons (riskCheck c ctx r) = reasons r @
     (if RISK_LEVELS (ai_act_status_classification c) > RISK_LEVELS (risk_classification_maximum_permitted ctx)
      then [risk_reason (ai_act_status_classification c) (risk_classification_maximum_permitted ctx)] else [])"
  by (simp add: riskCheck_def)

lemma riskCheck_warnings: "warnings (riskCheck c ctx r) = warnings r"
  by (simp add: riskCheck_def)

lemma riskCheck_compliant:
  "compliant (riskCheck c ctx r) = (compliant r \<and> reasons (riskCheck c ctx initial_result) = [])"
  by (simp add: riskCheck_def)

lemma conformityCheck_reasons:
  "reasons (conformityCheck c ctx r) = reasons r @
     (if \<not> ai_act_status_conformity_assessed c \<and> unknown_handling_ai_act_status ctx = Strict
      then [''Tool has not undergone conformity assessment''] else [])"
  by (simp add: conformityCheck_def)

lemma conformityCheck_warnings:
  "warnings (conformityCheck c ctx r) = warnings r @
     (if \<not> ai_act_status_conformity_assessed c \<and> unknown_handling_ai_act_status ctx \<noteq> Strict
      then [''Tool has not undergone conformity assessment''] else [])"
  by (simp add: conformityCheck_def)

lemma conformityCheck_compliant:
  "compliant (conformityCheck c ctx r) = (compliant r \<and> reasons (conformityCheck c ctx initial_result) = [])"
  by (simp add: conformityCheck_def)

lemma transferCheck_reasons:
  "reasons (transferCheck c g r) = reasons r @ reasons (transferCheck c g initial_result)"
  by (simp add: transferCheck_def split: option.splits)

lemma transferCheck_warnings: "warnings (transferCheck c g r) = warnings r"
  by (simp add: transferCheck_def split: option.splits)

lemma transferCheck_compliant:
  "compliant (transferCheck c g r) = (compliant r \<and> reasons (transferCheck c g initial_result) = [])"
  by (simp add: transferCheck_def split: option.splits)

lemma specialCatCheck_reasons:
  "reasons (specialCatCheck c g r) = reasons r @ reasons (specialCatCheck c g initial_result)"
  by (simp add: specialCatCheck_def split: option.splits)

lemma specialCatCheck_warnings: "warnings (specialCatCheck c g r) = warnings r"
  by (simp add: specialCatCheck_def split: option.splits)

lemma specialCatCheck_compliant:
  "compliant (specialCatCheck c g r) = (compliant r \<and> reasons (specialCatCheck c g initial_result) = [])"
  by (simp add: specialCatCheck_def split: option.splits)

lemma gdprCheck_reasons:
  "reasons (gdprCheck c ctx r) = reasons r @ reasons (gdprCheck c ctx initial_result)"
  by (simp add: gdprCheck_def specialCatCheck_reasons [of _ _ "transferCheck _ _ _"]
        transferCheck_reasons [of _ _ r] split: option.splits)

lemma gdprCheck_warnings: "warnings (gdprCheck c ctx r) = warnings r"
  by (simp add: gdprCheck_def specialCatCheck_warnings transferCheck_warnings split: option.splits)

lemma gdprCheck_compliant:
  "compliant (gdprCheck c ctx r) = (compliant r \<and> reasons (gdprCheck c ctx initial_result) = [])"
  by (simp add: gdprCheck_def specialCatCheck_compliant [of _ _ "transferCheck _ _ _"]
        specialCatCheck_reasons [of _ _ "transferCheck _ _ _"]
        transferCheck_compliant [of _ _ r] split: option.splits)

lemma certificationCheck_reasons:
  "reasons (certificationCheck c ctx r) = reasons r @ reasons (certificationCheck c ctx initial_result)"
  by (simp add: certificationCheck_def Let_def)

lemma certificationCheck_warnings:
  "warnings (certificationCheck c ctx r) = warnings r @ warnings (certificationCheck c ctx initial_result)"
  by (simp add: certificationCheck_def Let_def)

lemma certificationCheck_compliant:
  "compliant (certificationCheck c ctx r) = (compliant r \<and> reasons (certificationCheck c ctx initial_result) = [])"
  by (simp add: certificationCheck_def Let_def)

lemma supplyChainCheck_simps:
  "reasons (supplyChainCheck c r) = reasons r"
  "compliant (supplyChainCheck c r) = compliant r"
  by (simp_all add: supplyChainCheck_def)

lemma runChecks_reasons:
  "reasons (runChecks c ctx) =
     reasons (locationCheck c ctx initial_result) @
     reasons (riskCheck c ctx initial_result) @
     reasons (conformityCheck c ctx initial_result) @
     reasons (gdprCheck c ctx initial_result) @
     reasons (sectorCheck c ctx initial_result) @
     reasons (certificationCheck c ctx initial_result)"
  unfolding runChecks_def Let_def
  apply (subst supplyChainCheck_simps)
  apply (subst certificationCheck_reasons)
  apply (subst sectorCheck_reasons [of _ _ "gdprCheck _ _ _"])
  apply (subst gdprCheck_reasons [of _ _ "conformityCheck _ _ _"])
  apply (subst conformityCheck_reasons [of _ _ "riskCheck _ _ _"])
  apply (subst riskCheck_reasons [of _ _ "locationCheck _ _ _"])
  apply (simp add: sectorCheck_reasons conformityCheck_reasons riskCheck_reasons)
  done

lemma runChecks_compliant:
  "compliant (runChecks c ctx) = (reasons (runChecks c ctx) = [])"
  unfolding runChecks_reasons
  unfolding runChecks_def Let_def
  apply (subst supplyChainCheck_simps)
  apply (subst certificationCheck_compliant)
  apply (subst sectorCheck_compliant)
  apply (subst gdprCheck_compliant)
  apply (subst conformityCheck_compliant)
  apply (subst riskCheck_compliant)
  apply (subst locationCheck_compliant)
  apply simp
  done

lemma supplyChainCheck_warnings:
  "warnings (supplyChainCheck c r) = warnings r @ warnings (supplyChainCheck c initial_result)"
  by (simp add: supplyChainCheck_def)

lemma runChecks_warnings:
  "warnings (runChecks c ctx) =
     warnings (conformityCheck c ctx initial_result) @
     warnings (certificationCheck c ctx initial_result) @
     warnings (supplyChainCheck c initial_result)"
  unfolding runChecks_def Let_def
  apply (subst supplyChainCheck_warnings)
  apply (subst certificationCheck_warnings)
  apply (simp add: sectorCheck_warnings gdprCheck_warnings conformityCheck_warnings
           riskCheck_warnings locationCheck_warnings)
  done

lemma legacyOutcome_consistent:
  "compliant (legacyOutcome ctx initial_result) = (reasons (legacyOutcome ctx initial_result) = [])"
  by (simp add: legacyOutcome_def)

lemma unversionedOutcome_consistent:
  "compliant (unversionedOutcome ctx initial_result) = (reasons (unversionedOutcome ctx initial_result) = [])"
  by (simp add: unversionedOutcome_def)

lemma checkCompliance_result:
  "fst (checkCompliance n c ctx w) =
     (case c of None \<Rightarrow> legacyOutcome ctx initial_result
      | Some m \<Rightarrow> if pec_version m = [] then unversionedOutcome ctx initial_result
                  else runChecks m ctx)"
  by (simp add: checkCompliance_def Let_def split: option.splits)

subsection \<open>The expanded sets\<close>

lemma fold_insert_set: "fold insert xs A = set xs \<union> A"
  by (induction xs arbitrary: A) auto

lemma expandAll_fold:
  "fold (\<lambda>code acc. fold insert (expandJurisdiction code) acc) codes A
     = (\<Union>code\<in>set codes. set (expandJurisdiction code)) \<union> A"
  by (induction codes arbitrary: A) (auto simp: fold_insert_set)

lemma expandAll_eq: "expandAll codes = (\<Union>code\<in>set codes. set (expandJurisdiction code))"
  by (simp add: expandAll_def expandAll_fold)

lemmas jurisdiction_defs =
  expandJurisdiction_def toUpperCase_def upper_char_def
  EU_COUNTRIES_def EEA_COUNTRIES_def ADEQUACY_COUNTRIES_def

subsection \<open>The loop of the filter\<close>

lemma checkCompliance_result_indep:
  "fst (checkCompliance n c ctx w) = fst (checkCompliance n' c ctx w')"
  by (simp add: checkCompliance_result)

lemma filterStep_compliantTools:
  "compliantTools (filterStep ctx t st) =
     compliantTools st @ (if compliant (fst (checkCompliance (name t) (compliance t) ctx w)) then [t] else [])"
  using checkCompliance_result_indep [of "name t" "compliance t" ctx "world st" "name t" w]
  by (simp add: filterStep_def Let_def case_prod_beta)

lemma filterStep_rejected:
  "rejected (filterStep ctx t st) =
     rejected st @ (if compliant (fst (checkCompliance (name t) (compliance t) ctx w)) then []
                    else [(t, fst (checkCompliance (name t) (compliance t) ctx w))])"
  using checkCompliance_result_indep [of "name t" "compliance t" ctx "world st" "name t" w]
  by (simp add: filterStep_def Let_def case_prod_beta)

lemma fold_filterStep_compliantTools:
  "compliantTools (fold (filterStep ctx) tools st) =
     compliantTools st @
       filter (\<lambda>t. compliant (fst (checkCompliance (name t) (compliance t) ctx w))) tools"
  by (induction tools arbitrary: st) (simp_all add: filterStep_compliantTools [where w = w])

lemma fold_filterStep_rejected:
  "rejected (fold (filterStep ctx) tools st) =
     rejected st @
       map (\<lambda>t. (t, fst (checkCompliance (name t) (compliance t) ctx w)))
         (filter (\<lambda>t. \<not> compliant (fst (checkCompliance (name t) (compliance t) ctx w))) tools)"
  by (induction tools arbitrary: st) (simp_all add: filterStep_rejected [where w = w])

lemma merge_by_position_filter:
  "merge_by_position (map P xs) (filter P xs) (filter (\<lambda>x. \<not> P x) xs) = xs"
  by (induction xs) simp_all

subsection \<open>Counting the reasons of each check\<close>




lemma list_ex_overlap: "list_ex (\<lambda>x. x \<in> set ys) xs = (set xs \<inter> set ys \<noteq> {})"
  by (auto simp: list_ex_iff)



lemma gdprCheck_split:
  "reasons (gdprCheck c ctx initial_result) =
     (case gdpr_requirements ctx of
        None \<Rightarrow> []
      | Some g \<Rightarrow> reasons (transferCheck c g initial_result)
                  @ reasons (specialCatCheck c g initial_result))"
  by (simp add: gdprCheck_def specialCatCheck_reasons [of _ _ "transferCheck _ _ _"]
        split: option.splits)




subsection \<open>Telling the risk reason from the others\<close>

lemma strictly_below_levels: "strictly_below a b = (RISK_LEVELS a < RISK_LEVELS b)"
  by (cases a; cases b; simp add: strictly_below_def risk_order_def)

lemma risk_reason_take: "take 6 (risk_reason x m) = ''Tool r''"
  by (simp add: risk_reason_def)

lemma locationCheck_take:
  "s \<in> set (reasons (locationCheck c ctx initial_result)) \<Longrightarrow> take 6 s = ''Proces''"
  by (auto simp: locationCheck_reasons location_reason_def)

lemma conformityCheck_take:
  "s \<in> set (reasons (conformityCheck c ctx initial_result)) \<Longrightarrow> take 6 s = ''Tool h''"
  by (auto simp: conformityCheck_reasons split: if_splits)

lemma gdprCheck_take:
  "s \<in> set (reasons (gdprCheck c ctx initial_result)) \<Longrightarrow>
     take 6 s = ''Tool d'' \<or> take 6 s = ''Tool t'' \<or> take 6 s = ''Tool p''"
  by (auto simp: gdprCheck_split transferCheck_def specialCatCheck_def failed_with_def
        checkTransferMechanisms_def checkSpecialCategories_def split: option.splits if_splits)

lemma sectorCheck_take:
  "s \<in> set (reasons (sectorCheck c ctx initial_result)) \<Longrightarrow> take 6 s = ''Tool i''"
  by (auto simp: sectorCheck_reasons sector_reason_def)

lemma certificationCheck_take:
  "s \<in> set (reasons (certificationCheck c ctx initial_result)) \<Longrightarrow> take 6 s = ''Tool l''"
  by (auto simp: certificationCheck_def Let_def split: if_splits)

lemma no_risk_reason_elsewhere:
  assumes "RISK_LEVELS (ai_act_status_classification c)
             \<le> RISK_LEVELS (risk_classification_maximum_permitted ctx)"
  shows "risk_reason x m \<notin> set (reasons (runChecks c ctx))"
proof
  assume "risk_reason x m \<in> set (reasons (runChecks c ctx))"
  then consider
      "risk_reason x m \<in> set (reasons (locationCheck c ctx initial_result))"
    | "risk_reason x m \<in> set (reasons (conformityCheck c ctx initial_result))"
    | "risk_reason x m \<in> set (reasons (gdprCheck c ctx initial_result))"
    | "risk_reason x m \<in> set (reasons (sectorCheck c ctx initial_result))"
    | "risk_reason x m \<in> set (reasons (certificationCheck c ctx initial_result))"
    using assms by (auto simp: runChecks_reasons riskCheck_reasons)
  then show False
  proof cases
    case 1 from locationCheck_take [OF 1] show False by (simp add: risk_reason_take)
  next
    case 2 from conformityCheck_take [OF 2] show False by (simp add: risk_reason_take)
  next
    case 3 from gdprCheck_take [OF 3] show False by (simp add: risk_reason_take)
  next
    case 4 from sectorCheck_take [OF 4] show False by (simp add: risk_reason_take)
  next
    case 5 from certificationCheck_take [OF 5] show False by (simp add: risk_reason_take)
  qed
qed

lemma risk_reason_present:
  assumes "RISK_LEVELS (ai_act_status_classification c)
             > RISK_LEVELS (risk_classification_maximum_permitted ctx)"
  shows "risk_reason (ai_act_status_classification c) (risk_classification_maximum_permitted ctx)
           \<in> set (reasons (runChecks c ctx))"
  using assms by (simp add: runChecks_reasons riskCheck_reasons)

lemma no_risk_reason_unversioned:
  "risk_reason x m \<notin> set (reasons (unversionedOutcome ctx initial_result))"
  by (simp add: unversionedOutcome_def risk_reason_def)

subsection \<open>The handling modes\<close>

lemma ai_act_handling_elsewhere:
  "locationCheck c (ctx\<lparr>unknown_handling_ai_act_status := v\<rparr>) r = locationCheck c ctx r"
  "riskCheck c (ctx\<lparr>unknown_handling_ai_act_status := v\<rparr>) r = riskCheck c ctx r"
  "gdprCheck c (ctx\<lparr>unknown_handling_ai_act_status := v\<rparr>) r = gdprCheck c ctx r"
  "sectorCheck c (ctx\<lparr>unknown_handling_ai_act_status := v\<rparr>) r = sectorCheck c ctx r"
  "certificationCheck c (ctx\<lparr>unknown_handling_ai_act_status := v\<rparr>) r
     = certificationCheck c ctx r"
  by (simp_all add: locationCheck_def riskCheck_def gdprCheck_def sectorCheck_def
        certificationCheck_def)

lemma certifications_handling_elsewhere:
  "locationCheck c (ctx\<lparr>unknown_handling_certifications := v\<rparr>) r = locationCheck c ctx r"
  "riskCheck c (ctx\<lparr>unknown_handling_certifications := v\<rparr>) r = riskCheck c ctx r"
  "conformityCheck c (ctx\<lparr>unknown_handling_certifications := v\<rparr>) r
     = conformityCheck c ctx r"
  "gdprCheck c (ctx\<lparr>unknown_handling_certifications := v\<rparr>) r = gdprCheck c ctx r"
  "sectorCheck c (ctx\<lparr>unknown_handling_certifications := v\<rparr>) r = sectorCheck c ctx r"
  by (simp_all add: locationCheck_def riskCheck_def conformityCheck_def gdprCheck_def
        sectorCheck_def)

lemma conformityCheck_escalate:
  "conformityCheck c (ctx\<lparr>unknown_handling_ai_act_status := Escalate\<rparr>) r
     = conformityCheck c (ctx\<lparr>unknown_handling_ai_act_status := Permissive\<rparr>) r"
  by (simp add: conformityCheck_def)

lemma certificationCheck_escalate:
  "certificationCheck c (ctx\<lparr>unknown_handling_certifications := Escalate\<rparr>) r
     = certificationCheck c (ctx\<lparr>unknown_handling_certifications := Permissive\<rparr>) r"
  by (simp add: certificationCheck_def)

lemma runChecks_escalate:
  "runChecks c (ctx\<lparr>unknown_handling_ai_act_status := Escalate\<rparr>)
     = runChecks c (ctx\<lparr>unknown_handling_ai_act_status := Permissive\<rparr>)"
  "runChecks c (ctx\<lparr>unknown_handling_certifications := Escalate\<rparr>)
     = runChecks c (ctx\<lparr>unknown_handling_certifications := Permissive\<rparr>)"
  by (simp_all add: runChecks_def ai_act_handling_elsewhere certifications_handling_elsewhere
        conformityCheck_escalate certificationCheck_escalate)

subsection \<open>The audit entries\<close>

lemma event_summary_console [simp]:
  "event_summary (w\<lparr>console := x\<rparr>) = event_summary w"
  by (simp add: event_summary_def)

lemma event_summary_auditEvaluation:
  "event_summary (auditEvaluation n c result w) =
     map_option (\<lambda>evs. evs @
         (if compliant result then Tool_approved else Tool_rejected, Some n) #
         (if compliant result \<and> warnings result \<noteq> [] then [(Compliance_warning, Some n)] else []))
       (event_summary w)"
  by (simp add: event_summary_def auditEvaluation_def Let_def logToolEvaluation_def
        logComplianceWarning_def createEntry_def push_entry_def split: option.splits)

lemma event_summary_checkCompliance:
  "event_summary (snd (checkCompliance (name t) (compliance t) ctx w)) =
     map_option (\<lambda>evs. evs @ audit_events ctx t) (event_summary w)"
  by (cases "event_summary w")
     (simp_all add: checkCompliance_def audit_events_def Let_def event_summary_auditEvaluation
        split: option.splits)

lemma event_summary_filterStep:
  "event_summary (world (filterStep ctx t st)) =
     map_option (\<lambda>evs. evs @ audit_events ctx t) (event_summary (world st))"
  using event_summary_checkCompliance [of t ctx "world st"]
  by (simp add: filterStep_def Let_def case_prod_beta)

lemma event_summary_fold_filterStep:
  "event_summary (world (fold (filterStep ctx) tools st)) =
     map_option (\<lambda>evs. evs @ concat (map (audit_events ctx) tools)) (event_summary (world st))"
proof (induction tools arbitrary: st)
  case Nil
  show ?case by (cases "event_summary (world st)") simp_all
next
  case (Cons t tools)
  show ?case
    by (cases "event_summary (world st)") (simp_all add: Cons.IH event_summary_filterStep)
qed

subsection \<open>Evaluation on the demo values\<close>

lemmas check_defs =
  Let_def runChecks_def initial_result_def push_reason_def push_warning_def
  legacyOutcome_def unversionedOutcome_def locationCheck_def location_reason_def
  riskCheck_def risk_reason_def conformityCheck_def transferCheck_def specialCatCheck_def
  gdprCheck_def sector_reason_def sectorCheck_def certificationCheck_def supplyChainCheck_def
  failed_with_def checkTransferMechanisms_def checkSpecialCategories_def
  isLocationAllowed_def expandAll_def expandJurisdiction_def toUpperCase_def upper_char_def
  EU_COUNTRIES_def EEA_COUNTRIES_def ADEQUACY_COUNTRIES_def

lemmas demo_defs =
  euDeploymentContext_def acmeTranslationCompliance_def beijingCloudCompliance_def
  no_logger_def eu_session_def initAuditLogger_def

lemma acme_eu_reasons: "reasons (runChecks acmeTranslationCompliance euDeploymentContext) = []"
  by (simp add: runChecks_reasons check_defs demo_defs)

lemma acme_eu_warnings: "warnings (runChecks acmeTranslationCompliance euDeploymentContext) = []"
  by (simp add: runChecks_warnings check_defs demo_defs)

lemma acme_undisclosed_eu_reasons:
  "reasons (runChecks (acmeTranslationCompliance\<lparr>supply_chain_disclosure := False\<rparr>)
      euDeploymentContext) = []"
  by (simp add: runChecks_reasons check_defs demo_defs)

lemma acme_undisclosed_eu_warnings:
  "warnings (runChecks (acmeTranslationCompliance\<lparr>supply_chain_disclosure := False\<rparr>)
      euDeploymentContext) = [''Tool has not disclosed supply chain dependencies'']"
  by (simp add: runChecks_warnings check_defs demo_defs)

lemma acme_versioned [simp]:
  "pec_version acmeTranslationCompliance \<noteq> []"
  by (simp add: acmeTranslationCompliance_def)

lemma beijing_eu_reasons:
  "reasons (runChecks beijingCloudCompliance euDeploymentContext) =
     [location_reason ''CN'', ''Tool has not undergone conformity assessment'',
      ''Tool declares no GDPR transfer mechanisms but context requires one of: ADEQUACY, SCCS_2021, BCR'']"
  by (simp add: runChecks_reasons check_defs demo_defs)

lemma beijing_versioned [simp]: "pec_version beijingCloudCompliance \<noteq> []"
  by (simp add: beijingCloudCompliance_def)


lemma eu_session_events: "event_summary eu_session = Some []"
  by (simp add: event_summary_def eu_session_def initAuditLogger_def no_logger_def)

section \<open>The claims\<close>




text \<open>
  C2 (as amended). When an audit logger is installed, \<open>filterCompliantTools\<close> appends,
  for every tool of the batch whose metadata is present with a non-empty version string,
  exactly one evaluation entry (\<open>tool_approved\<close> when compliant, \<open>tool_rejected\<close>
  otherwise) followed by exactly one \<open>compliance_warning\<close> entry when the tool is
  admitted with a non-empty warning list, in batch order; a tool with absent metadata or an
  empty version string appends nothing. With no logger installed nothing is recorded.
\<close>

theorem audit_entries_of_batch:
  "event_summary (world (filterCompliantTools tools ctx w)) =
     map_option (\<lambda>evs. evs @ concat (map (audit_events ctx) tools)) (event_summary w)"
  by (simp add: filterCompliantTools_def event_summary_fold_filterStep)

text \<open>
  A batch under the EU session: one tool approved, one approved with a warning, one
  rejected.
\<close>

theorem audit_entries_of_batch_witness:
  "event_summary (world (filterCompliantTools
       [\<lparr>name = ''acme_translate'', compliance = Some acmeTranslationCompliance\<rparr>,
        \<lparr>name = ''acme_undisclosed'',
         compliance = Some (acmeTranslationCompliance\<lparr>supply_chain_disclosure := False\<rparr>)\<rparr>,
        \<lparr>name = ''beijingcloud_compute'', compliance = Some beijingCloudCompliance\<rparr>]
       euDeploymentContext eu_session))
     = Some [(Tool_approved, Some ''acme_translate''),
             (Tool_approved, Some ''acme_undisclosed''),
             (Compliance_warning, Some ''acme_undisclosed''),
             (Tool_rejected, Some ''beijingcloud_compute'')]"
  using audit_entries_of_batch [of
       "[\<lparr>name = ''acme_translate'', compliance = Some acmeTranslationCompliance\<rparr>,
        \<lparr>name = ''acme_undisclosed'',
         compliance = Some (acmeTranslationCompliance\<lparr>supply_chain_disclosure := False\<rparr>)\<rparr>,
        \<lparr>name = ''beijingcloud_compute'', compliance = Some beijingCloudCompliance\<rparr>]"
       euDeploymentContext eu_session]
  by (simp add: eu_session_events audit_events_def Let_def runChecks_compliant
        acme_eu_reasons acme_eu_warnings acme_undisclosed_eu_reasons
        acme_undisclosed_eu_warnings beijing_eu_reasons)

text \<open>
  The claim as stated, with absent metadata included, fails: a tool without metadata is
  processed and rejected, and the audit log stays empty.
\<close>

theorem legacy_tool_leaves_no_audit_entry:
  "event_summary eu_session = Some []
   \<and> map (\<lambda>p. name (fst p))
        (rejected (filterCompliantTools [\<lparr>name = ''legacy_tool'', compliance = None\<rparr>]
           euDeploymentContext eu_session))
     = [''legacy_tool'']
   \<and> event_summary (world (filterCompliantTools [\<lparr>name = ''legacy_tool'', compliance = None\<rparr>]
        euDeploymentContext eu_session))
     = Some []"
  by (simp add: eu_session_events filterCompliantTools_def filterStep_def checkCompliance_def
        legacyOutcome_def euDeploymentContext_def Let_def)

text \<open>
  C3. For every declared location \<open>L\<close> and all lists of required and prohibited codes:
  when the uppercased \<open>L\<close> is in the union of the expansions of the prohibited codes,
  \<open>isLocationAllowed\<close> rejects it whatever the required codes are, so also when it is in
  the union of the required expansions as well; otherwise \<open>L\<close> is allowed exactly when
  it is in the union of the required expansions; a location in neither union is rejected.
\<close>

theorem prohibition_precedence:
  "(toUpperCase L \<in> (\<Union>p\<in>set prohibited. set (expandJurisdiction p))
      \<longrightarrow> \<not> isLocationAllowed L required prohibited)
   \<and> (toUpperCase L \<notin> (\<Union>p\<in>set prohibited. set (expandJurisdiction p))
      \<longrightarrow> isLocationAllowed L required prohibited
            = (toUpperCase L \<in> (\<Union>q\<in>set required. set (expandJurisdiction q))))
   \<and> (toUpperCase L \<notin> (\<Union>p\<in>set prohibited. set (expandJurisdiction p))
      \<and> toUpperCase L \<notin> (\<Union>q\<in>set required. set (expandJurisdiction q))
      \<longrightarrow> \<not> isLocationAllowed L required prohibited)"
  by (simp add: isLocationAllowed_def expandAll_eq Let_def)

text \<open>
  \<open>de\<close> is derivable from the required \<open>EU\<close> and from the prohibited \<open>DE\<close>, and is
  rejected; \<open>fr\<close> is only required, and allowed; \<open>br\<close> is in neither, and rejected.
\<close>

theorem prohibition_precedence_witness:
  "toUpperCase ''de'' \<in> (\<Union>p\<in>set [''DE'']. set (expandJurisdiction p))
   \<and> toUpperCase ''de'' \<in> (\<Union>q\<in>set [''EU'']. set (expandJurisdiction q))
   \<and> \<not> isLocationAllowed ''de'' [''EU''] [''DE'']
   \<and> toUpperCase ''fr'' \<notin> (\<Union>p\<in>set [''DE'']. set (expandJurisdiction p))
   \<and> isLocationAllowed ''fr'' [''EU''] [''DE'']
   \<and> toUpperCase ''br'' \<notin> (\<Union>q\<in>set [''EU'']. set (expandJurisdiction q))
   \<and> \<not> isLocationAllowed ''br'' [''EU''] [''DE'']"
  using prohibition_precedence [of "''de''" "[''DE'']" "[''EU'']"]
        prohibition_precedence [of "''fr''" "[''DE'']" "[''EU'']"]
        prohibition_precedence [of "''br''" "[''DE'']" "[''EU'']"]
  by (simp add: jurisdiction_defs)

text \<open>
  C4. For every input list of tools, context and process state, \<open>filterCompliantTools\<close>
  puts into the admitted bucket exactly the tools found compliant and into the rejected
  bucket exactly the others with their results, each bucket in input order (each is a
  subsequence of the input); merging the two buckets by the tools' original positions
  gives back the input list.
\<close>

theorem filter_preserves_order:
  "compliantTools (filterCompliantTools tools ctx w)
     = filter (\<lambda>t. compliant (fst (checkCompliance (name t) (compliance t) ctx w))) tools
   \<and> rejected (filterCompliantTools tools ctx w)
     = map (\<lambda>t. (t, fst (checkCompliance (name t) (compliance t) ctx w)))
         (filter (\<lambda>t. \<not> compliant (fst (checkCompliance (name t) (compliance t) ctx w))) tools)
   \<and> merge_by_position
       (map (\<lambda>t. compliant (fst (checkCompliance (name t) (compliance t) ctx w))) tools)
       (compliantTools (filterCompliantTools tools ctx w))
       (map fst (rejected (filterCompliantTools tools ctx w)))
     = tools
   \<and> subseq (compliantTools (filterCompliantTools tools ctx w)) tools
   \<and> subseq (map fst (rejected (filterCompliantTools tools ctx w))) tools"
proof -
  let ?ok = "\<lambda>t. compliant (fst (checkCompliance (name t) (compliance t) ctx w))"
  have a: "compliantTools (filterCompliantTools tools ctx w) = filter ?ok tools"
    by (simp add: filterCompliantTools_def fold_filterStep_compliantTools [where w = w])
  have r: "rejected (filterCompliantTools tools ctx w)
     = map (\<lambda>t. (t, fst (checkCompliance (name t) (compliance t) ctx w)))
         (filter (\<lambda>t. \<not> ?ok t) tools)"
    by (simp add: filterCompliantTools_def fold_filterStep_rejected [where w = w])
  have r': "map fst (rejected (filterCompliantTools tools ctx w)) = filter (\<lambda>t. \<not> ?ok t) tools"
    by (simp add: r comp_def)
  show ?thesis
    unfolding r' unfolding a
    using r by (simp add: merge_by_position_filter)
qed

text \<open>A batch of four under the EU session: two admitted, two rejected, each in input order.\<close>

theorem filter_preserves_order_witness:
  "map name (compliantTools (filterCompliantTools
       [\<lparr>name = ''beijingcloud_compute'', compliance = Some beijingCloudCompliance\<rparr>,
        \<lparr>name = ''acme_translate'', compliance = Some acmeTranslationCompliance\<rparr>,
        \<lparr>name = ''legacy_tool'', compliance = None\<rparr>,
        \<lparr>name = ''acme_undisclosed'',
         compliance = Some (acmeTranslationCompliance\<lparr>supply_chain_disclosure := False\<rparr>)\<rparr>]
       euDeploymentContext eu_session))
     = [''acme_translate'', ''acme_undisclosed'']
   \<and> map (\<lambda>p. name (fst p)) (rejected (filterCompliantTools
       [\<lparr>name = ''beijingcloud_compute'', compliance = Some beijingCloudCompliance\<rparr>,
        \<lparr>name = ''acme_translate'', compliance = Some acmeTranslationCompliance\<rparr>,
        \<lparr>name = ''legacy_tool'', compliance = None\<rparr>,
        \<lparr>name = ''acme_undisclosed'',
         compliance = Some (acmeTranslationCompliance\<lparr>supply_chain_disclosure := False\<rparr>)\<rparr>]
       euDeploymentContext eu_session))
     = [''beijingcloud_compute'', ''legacy_tool'']"
  using filter_preserves_order [of
       "[\<lparr>name = ''beijingcloud_compute'', compliance = Some beijingCloudCompliance\<rparr>,
        \<lparr>name = ''acme_translate'', compliance = Some acmeTranslationCompliance\<rparr>,
        \<lparr>name = ''legacy_tool'', compliance = None\<rparr>,
        \<lparr>name = ''acme_undisclosed'',
         compliance = Some (acmeTranslationCompliance\<lparr>supply_chain_disclosure := False\<rparr>)\<rparr>]"
       euDeploymentContext eu_session]
  by (simp add: checkCompliance_result runChecks_compliant acme_eu_reasons
        acme_undisclosed_eu_reasons beijing_eu_reasons legacyOutcome_def
        euDeploymentContext_def [THEN arg_cong [where f = legacy_servers_policy]])

text \<open>
  C5. For every metadata record (present or absent) and every context, the result of
  \<open>checkCompliance\<close> has \<open>compliant\<close> true exactly when its list of reasons is empty.
  The flag is a function of the reasons alone: two evaluations with the same reasons have
  the same flag, whatever their warnings are.
\<close>

theorem compliant_iff_no_reasons:
  "compliant (fst (checkCompliance toolName c ctx w))
     = (reasons (fst (checkCompliance toolName c ctx w)) = [])
   \<and> (reasons (fst (checkCompliance toolName c ctx w))
        = reasons (fst (checkCompliance toolName' c' ctx' w'))
      \<longrightarrow> compliant (fst (checkCompliance toolName c ctx w))
        = compliant (fst (checkCompliance toolName' c' ctx' w')))"
proof -
  have iff: "compliant (fst (checkCompliance n m x v)) = (reasons (fst (checkCompliance n m x v)) = [])"
    for n m x v
    by (simp add: checkCompliance_result legacyOutcome_consistent unversionedOutcome_consistent
          runChecks_compliant split: option.splits)
  show ?thesis
    using iff [of toolName c ctx w] iff [of toolName' c' ctx' w'] by simp
qed

text \<open>
  The demo's translation tool, evaluated as declared and with its supply chain undisclosed:
  the reasons agree, the warnings differ, the flag is the same.
\<close>

theorem compliant_iff_no_reasons_witness:
  "reasons (fst (checkCompliance ''acme_translate'' (Some acmeTranslationCompliance)
                   euDeploymentContext eu_session))
     = reasons (fst (checkCompliance ''acme_translate''
                       (Some (acmeTranslationCompliance\<lparr>supply_chain_disclosure := False\<rparr>))
                       euDeploymentContext eu_session))
   \<and> warnings (fst (checkCompliance ''acme_translate'' (Some acmeTranslationCompliance)
                   euDeploymentContext eu_session))
     \<noteq> warnings (fst (checkCompliance ''acme_translate''
                       (Some (acmeTranslationCompliance\<lparr>supply_chain_disclosure := False\<rparr>))
                       euDeploymentContext eu_session))
   \<and> compliant (fst (checkCompliance ''acme_translate'' (Some acmeTranslationCompliance)
                   euDeploymentContext eu_session))
     = compliant (fst (checkCompliance ''acme_translate''
                       (Some (acmeTranslationCompliance\<lparr>supply_chain_disclosure := False\<rparr>))
                       euDeploymentContext eu_session))"
  using compliant_iff_no_reasons [of "''acme_translate''" "Some acmeTranslationCompliance"
          euDeploymentContext eu_session "''acme_translate''"
          "Some (acmeTranslationCompliance\<lparr>supply_chain_disclosure := False\<rparr>)"
          euDeploymentContext eu_session]
  by (simp add: checkCompliance_result runChecks_compliant acme_eu_reasons acme_eu_warnings
        acme_undisclosed_eu_reasons acme_undisclosed_eu_warnings)

text \<open>
  C6 (as amended). The table \<open>RISK_LEVELS\<close> orders the six classifications as
  minimal < limited < gpai < high < gpai_systemic < unacceptable, under these names. For
  \<open>a\<close> strictly below \<open>b\<close> and a context whose maximum is \<open>b\<close>, the result of
  \<open>checkCompliance\<close> for a tool classified \<open>a\<close> or \<open>b\<close> holds no risk-threshold
  reason; for every tool with a non-empty version string classified strictly above \<open>b\<close>
  it holds the fatal reason that names the tool's classification and \<open>b\<close>, and the tool
  is not compliant. A tool whose version string is empty gets no risk-threshold reason,
  whatever its classification.
\<close>

theorem risk_threshold_monotone:
  "strictly_below a b = (RISK_LEVELS a < RISK_LEVELS b)
   \<and> map classification_str risk_order
       = [''minimal'', ''limited'', ''gpai'', ''high'', ''gpai_systemic'', ''unacceptable'']
   \<and> (strictly_below a b \<and> risk_classification_maximum_permitted ctx = b
        \<and> (ai_act_status_classification c = a \<or> ai_act_status_classification c = b)
      \<longrightarrow> (\<forall>x m. risk_reason x m
                   \<notin> set (reasons (fst (checkCompliance toolName (Some c) ctx w)))))
   \<and> (risk_classification_maximum_permitted ctx = b
        \<and> strictly_below b (ai_act_status_classification c) \<and> pec_version c \<noteq> []
      \<longrightarrow> ''Tool risk classification '' @ apostrophe
            @ classification_str (ai_act_status_classification c) @ apostrophe
            @ '' exceeds maximum permitted '' @ apostrophe @ classification_str b @ apostrophe
            \<in> set (reasons (fst (checkCompliance toolName (Some c) ctx w)))
          \<and> \<not> compliant (fst (checkCompliance toolName (Some c) ctx w)))
   \<and> (pec_version c = []
      \<longrightarrow> (\<forall>x m. risk_reason x m
                   \<notin> set (reasons (fst (checkCompliance toolName (Some c) ctx w)))))"
proof -
  have names: "map classification_str risk_order
       = [''minimal'', ''limited'', ''gpai'', ''high'', ''gpai_systemic'', ''unacceptable'']"
    by (simp add: risk_order_def)
  have unv: "\<forall>x m. risk_reason x m \<notin> set (reasons (fst (checkCompliance toolName (Some c) ctx w)))"
    if "pec_version c = []"
    using that by (simp add: checkCompliance_result no_risk_reason_unversioned)
  have low: "\<forall>x m. risk_reason x m \<notin> set (reasons (fst (checkCompliance toolName (Some c) ctx w)))"
    if "strictly_below a b" "risk_classification_maximum_permitted ctx = b"
       "ai_act_status_classification c = a \<or> ai_act_status_classification c = b"
  proof (cases "pec_version c = []")
    case True
    then show ?thesis by (rule unv)
  next
    case False
    from that have le: "RISK_LEVELS (ai_act_status_classification c)
             \<le> RISK_LEVELS (risk_classification_maximum_permitted ctx)"
      by (auto simp: strictly_below_levels)
    from False no_risk_reason_elsewhere [OF le] show ?thesis
      by (simp add: checkCompliance_result)
  qed
  have high: "''Tool risk classification '' @ apostrophe
            @ classification_str (ai_act_status_classification c) @ apostrophe
            @ '' exceeds maximum permitted '' @ apostrophe @ classification_str b @ apostrophe
            \<in> set (reasons (fst (checkCompliance toolName (Some c) ctx w)))
          \<and> \<not> compliant (fst (checkCompliance toolName (Some c) ctx w))"
    if "risk_classification_maximum_permitted ctx = b"
       "strictly_below b (ai_act_status_classification c)" "pec_version c \<noteq> []"
  proof -
    from that have gt: "RISK_LEVELS (ai_act_status_classification c)
             > RISK_LEVELS (risk_classification_maximum_permitted ctx)"
      by (simp add: strictly_below_levels)
    have mem: "risk_reason (ai_act_status_classification c) b \<in> set (reasons (runChecks c ctx))"
      using risk_reason_present [OF gt] that by simp
    then have "\<not> compliant (runChecks c ctx)"
      by (auto simp: runChecks_compliant)
    with mem that show ?thesis
      by (simp add: checkCompliance_result risk_reason_def)
  qed
  from names unv low high show ?thesis
    by (simp add: strictly_below_levels)
qed

text \<open>
  Under the EU context (maximum \<open>limited\<close>): the translation tool (\<open>minimal\<close>) gets no
  risk reason, the variant classified \<open>high\<close> gets the reason with both names.
\<close>

theorem risk_threshold_monotone_witness:
  "strictly_below Minimal Limited
   \<and> (\<forall>x m. risk_reason x m
          \<notin> set (reasons (fst (checkCompliance ''acme_translate''
                                  (Some acmeTranslationCompliance) euDeploymentContext
                                  eu_session))))
   \<and> strictly_below Limited High
   \<and> ''Tool risk classification '' @ apostrophe @ ''high'' @ apostrophe
        @ '' exceeds maximum permitted '' @ apostrophe @ ''limited'' @ apostrophe
       \<in> set (reasons (fst (checkCompliance ''legal_tool'' (Some highRiskLegalTool)
                               euDeploymentContext eu_session)))
   \<and> \<not> compliant (fst (checkCompliance ''legal_tool'' (Some highRiskLegalTool)
                          euDeploymentContext eu_session))"
proof -
  have h1: "strictly_below Minimal Limited" and h2: "strictly_below Limited High"
    by (simp_all add: strictly_below_def risk_order_def)
  have h3: "risk_classification_maximum_permitted euDeploymentContext = Limited"
    by (simp add: euDeploymentContext_def)
  have h4: "ai_act_status_classification acmeTranslationCompliance = Minimal"
    by (simp add: acmeTranslationCompliance_def)
  have h5: "ai_act_status_classification highRiskLegalTool = High"
    and h6: "pec_version highRiskLegalTool \<noteq> []"
    by (simp_all add: highRiskLegalTool_def)
  have low: "\<forall>x m. risk_reason x m
          \<notin> set (reasons (fst (checkCompliance ''acme_translate''
                                  (Some acmeTranslationCompliance) euDeploymentContext
                                  eu_session)))"
    using risk_threshold_monotone [of Minimal Limited euDeploymentContext
            acmeTranslationCompliance "''acme_translate''" eu_session]
          h1 h3 h4
    by blast
  have high: "''Tool risk classification '' @ apostrophe
            @ classification_str (ai_act_status_classification highRiskLegalTool) @ apostrophe
            @ '' exceeds maximum permitted '' @ apostrophe @ classification_str Limited
            @ apostrophe
            \<in> set (reasons (fst (checkCompliance ''legal_tool'' (Some highRiskLegalTool)
                                    euDeploymentContext eu_session)))
          \<and> \<not> compliant (fst (checkCompliance ''legal_tool'' (Some highRiskLegalTool)
                               euDeploymentContext eu_session))"
    using risk_threshold_monotone [of Minimal Limited euDeploymentContext
            highRiskLegalTool "''legal_tool''" eu_session]
          h2 h3 h5 h6
    by (metis (no_types, lifting))
  from h1 h2 low high show ?thesis by (simp add: h5)
qed

text \<open>
  The claim as stated, for every tool classified above the maximum, fails: the translation
  tool with an empty version string and classified \<open>unacceptable\<close>, under maximum
  \<open>limited\<close> and the \<open>allow\<close> policy, is compliant with no reason.
\<close>

theorem unversioned_tool_above_maximum_passes:
  "strictly_below Limited Unacceptable
   \<and> risk_classification_maximum_permitted
        (euDeploymentContext\<lparr>legacy_servers_policy := Allow\<rparr>) = Limited
   \<and> ai_act_status_classification
        (acmeTranslationCompliance\<lparr>pec_version := [],
           ai_act_status_classification := Unacceptable\<rparr>) = Unacceptable
   \<and> reasons (fst (checkCompliance ''acme_translate''
        (Some (acmeTranslationCompliance\<lparr>pec_version := [],
                 ai_act_status_classification := Unacceptable\<rparr>))
        (euDeploymentContext\<lparr>legacy_servers_policy := Allow\<rparr>) eu_session)) = []
   \<and> compliant (fst (checkCompliance ''acme_translate''
        (Some (acmeTranslationCompliance\<lparr>pec_version := [],
                 ai_act_status_classification := Unacceptable\<rparr>))
        (euDeploymentContext\<lparr>legacy_servers_policy := Allow\<rparr>) eu_session))"
  by (simp add: checkCompliance_result unversionedOutcome_def strictly_below_def risk_order_def
        euDeploymentContext_def)

text \<open>
  C7. Without a metadata record the outcome is determined by \<open>legacy_servers.policy\<close>
  alone: \<open>block\<close> gives a non-compliant result with exactly one reason, \<open>warn\<close> a
  compliant result with exactly one warning and no reason, \<open>allow\<close> a compliant result
  with neither. No other check runs: the process state, audit log included, is returned
  as it was.
\<close>

theorem absent_metadata_by_policy:
  "checkCompliance toolName None ctx w =
     (case legacy_servers_policy ctx of
        Block \<Rightarrow> (\<lparr>compliant = False,
                    reasons = [''Tool lacks PEC compliance metadata and legacy servers are blocked''],
                    warnings = []\<rparr>, w)
      | Warn \<Rightarrow> (\<lparr>compliant = True, reasons = [],
                   warnings = [''Tool lacks PEC compliance metadata (legacy server)'']\<rparr>, w)
      | Allow \<Rightarrow> (\<lparr>compliant = True, reasons = [], warnings = []\<rparr>, w))"
  by (simp add: checkCompliance_def legacyOutcome_def initial_result_def push_reason_def
        push_warning_def split: LegacyPolicy.splits)

text \<open>
  C8. The transfer-mechanism check is part of the GDPR block, which does nothing when the
  context declares no \<open>gdpr_requirements\<close>. With a non-empty required set, it appends
  one fatal reason when the tool's mechanisms do not overlap the required ones (a message
  of its own when the tool declares none at all, different from the other message) and
  leaves the result untouched when they overlap; with an empty or absent required set it
  leaves the result untouched for every tool.
\<close>

theorem transfer_mechanism_check:
  "(gdpr_requirements ctx = None \<longrightarrow> gdprCheck c ctx r = r)
   \<and> (gdpr_requirements ctx = Some g \<longrightarrow>
        gdprCheck c ctx r = specialCatCheck c g (transferCheck c g r))
   \<and> (transfer_mechanisms_required g = Some req \<and> req \<noteq> []
        \<and> set (gdpr_transfer_mechanisms c) \<inter> set req = {} \<longrightarrow>
        reasons (transferCheck c g r) = reasons r @
          [if gdpr_transfer_mechanisms c = []
           then ''Tool declares no GDPR transfer mechanisms but context requires one of: ''
                  @ join '', '' (map mechanism_str req)
           else ''Tool transfer mechanisms [''
                  @ join '', '' (map mechanism_str (gdpr_transfer_mechanisms c))
                  @ ''] do not include any required mechanism: ''
                  @ join '', '' (map mechanism_str req)]
        \<and> \<not> compliant (transferCheck c g r)
        \<and> warnings (transferCheck c g r) = warnings r)
   \<and> (transfer_mechanisms_required g = Some req \<and> req \<noteq> []
        \<and> set (gdpr_transfer_mechanisms c) \<inter> set req \<noteq> {} \<longrightarrow>
        transferCheck c g r = r)
   \<and> (transfer_mechanisms_required g = None \<or> transfer_mechanisms_required g = Some [] \<longrightarrow>
        transferCheck c g r = r)
   \<and> ''Tool declares no GDPR transfer mechanisms but context requires one of: '' @ s
        \<noteq> ''Tool transfer mechanisms ['' @ s'"
proof -
  have none: "gdpr_requirements ctx = None \<longrightarrow> gdprCheck c ctx r = r"
    by (simp add: gdprCheck_def)
  have some: "gdpr_requirements ctx = Some g \<longrightarrow>
        gdprCheck c ctx r = specialCatCheck c g (transferCheck c g r)"
    by (simp add: gdprCheck_def)
  have miss: "reasons (transferCheck c g r) = reasons r @
          [if gdpr_transfer_mechanisms c = []
           then ''Tool declares no GDPR transfer mechanisms but context requires one of: ''
                  @ join '', '' (map mechanism_str req)
           else ''Tool transfer mechanisms [''
                  @ join '', '' (map mechanism_str (gdpr_transfer_mechanisms c))
                  @ ''] do not include any required mechanism: ''
                  @ join '', '' (map mechanism_str req)]
        \<and> \<not> compliant (transferCheck c g r)
        \<and> warnings (transferCheck c g r) = warnings r"
    if "transfer_mechanisms_required g = Some req" "req \<noteq> []"
       "set (gdpr_transfer_mechanisms c) \<inter> set req = {}"
    using that
    by (simp add: transferCheck_def failed_with_def checkTransferMechanisms_def list_ex_overlap)
  have meet: "transferCheck c g r = r"
    if "transfer_mechanisms_required g = Some req" "req \<noteq> []"
       "set (gdpr_transfer_mechanisms c) \<inter> set req \<noteq> {}"
    using that
    by (auto simp: transferCheck_def failed_with_def checkTransferMechanisms_def list_ex_overlap)
  have triv: "transferCheck c g r = r"
    if "transfer_mechanisms_required g = None \<or> transfer_mechanisms_required g = Some []"
    using that
    by (auto simp: transferCheck_def failed_with_def checkTransferMechanisms_def)
  have dist: "''Tool declares no GDPR transfer mechanisms but context requires one of: '' @ s
        \<noteq> ''Tool transfer mechanisms ['' @ s'"
    by simp
  from none some miss meet triv dist show ?thesis by blast
qed

text \<open>
  The four cases on the demo's tools: no mechanism declared, a mechanism outside the
  required set, a mechanism inside it, an empty required set; and a context without
  \<open>gdpr_requirements\<close>.
\<close>

theorem transfer_mechanism_check_witness:
  "reasons (transferCheck beijingCloudCompliance
       \<lparr>transfer_mechanisms_required = Some [ADEQUACY, SCCS_2021, BCR],
        special_categories_allowed = Some False\<rparr> initial_result)
     = [''Tool declares no GDPR transfer mechanisms but context requires one of: ADEQUACY, SCCS_2021, BCR'']
   \<and> reasons (transferCheck (acmeTranslationCompliance\<lparr>gdpr_transfer_mechanisms := [DEROGATION_CONSENT]\<rparr>)
       \<lparr>transfer_mechanisms_required = Some [ADEQUACY, SCCS_2021, BCR],
        special_categories_allowed = Some False\<rparr> initial_result)
     = [''Tool transfer mechanisms [DEROGATION_CONSENT] do not include any required mechanism: ADEQUACY, SCCS_2021, BCR'']
   \<and> transferCheck acmeTranslationCompliance
       \<lparr>transfer_mechanisms_required = Some [ADEQUACY, SCCS_2021, BCR],
        special_categories_allowed = Some False\<rparr> initial_result = initial_result
   \<and> transferCheck beijingCloudCompliance
       \<lparr>transfer_mechanisms_required = Some [],
        special_categories_allowed = Some True\<rparr> initial_result = initial_result
   \<and> gdprCheck beijingCloudCompliance (euDeploymentContext\<lparr>gdpr_requirements := None\<rparr>)
       initial_result = initial_result"
proof -
  let ?g = "\<lparr>transfer_mechanisms_required = Some [ADEQUACY, SCCS_2021, BCR],
             special_categories_allowed = Some False\<rparr>"
  let ?e = "\<lparr>transfer_mechanisms_required = Some [],
             special_categories_allowed = Some True\<rparr>"
  let ?d = "acmeTranslationCompliance\<lparr>gdpr_transfer_mechanisms := [DEROGATION_CONSENT]\<rparr>"
  have a: "reasons (transferCheck beijingCloudCompliance ?g initial_result)
     = [''Tool declares no GDPR transfer mechanisms but context requires one of: ADEQUACY, SCCS_2021, BCR'']"
    using transfer_mechanism_check [of "euDeploymentContext\<lparr>gdpr_requirements := None\<rparr>"
            beijingCloudCompliance initial_result ?g "[ADEQUACY, SCCS_2021, BCR]"]
    by (simp add: beijingCloudCompliance_def)
  have b: "reasons (transferCheck ?d ?g initial_result)
     = [''Tool transfer mechanisms [DEROGATION_CONSENT] do not include any required mechanism: ADEQUACY, SCCS_2021, BCR'']"
    using transfer_mechanism_check [of euDeploymentContext ?d initial_result ?g
            "[ADEQUACY, SCCS_2021, BCR]"]
    by (simp add: acmeTranslationCompliance_def)
  have c: "transferCheck acmeTranslationCompliance ?g initial_result = initial_result"
    using transfer_mechanism_check [of euDeploymentContext acmeTranslationCompliance
            initial_result ?g "[ADEQUACY, SCCS_2021, BCR]"]
    by (simp add: acmeTranslationCompliance_def)
  have d: "transferCheck beijingCloudCompliance ?e initial_result = initial_result"
    using transfer_mechanism_check [of euDeploymentContext beijingCloudCompliance
            initial_result ?e "[]"]
    by simp
  have e: "gdprCheck beijingCloudCompliance (euDeploymentContext\<lparr>gdpr_requirements := None\<rparr>)
       initial_result = initial_result"
    using transfer_mechanism_check [of "euDeploymentContext\<lparr>gdpr_requirements := None\<rparr>"
            beijingCloudCompliance initial_result ?g "[ADEQUACY, SCCS_2021, BCR]"]
    by simp
  from a b c d e show ?thesis by blast
qed

text \<open>
  C9. The handling mode \<open>escalate\<close> behaves exactly as \<open>permissive\<close>, for
  \<open>unknown_handling.ai_act_status\<close> and for \<open>unknown_handling.certifications\<close>:
  \<open>checkCompliance\<close> returns the same result and the same audit state under both. Under
  any mode other than \<open>strict\<close> the conformity check and the certification check add a
  warning and never a reason; only \<open>strict\<close> makes them add a fatal reason.
\<close>

theorem escalate_behaves_as_permissive:
  "checkCompliance toolName m (ctx\<lparr>unknown_handling_ai_act_status := Escalate\<rparr>) w
     = checkCompliance toolName m (ctx\<lparr>unknown_handling_ai_act_status := Permissive\<rparr>) w
   \<and> checkCompliance toolName m (ctx\<lparr>unknown_handling_certifications := Escalate\<rparr>) w
     = checkCompliance toolName m (ctx\<lparr>unknown_handling_certifications := Permissive\<rparr>) w
   \<and> (unknown_handling_ai_act_status ctx \<noteq> Strict \<longrightarrow>
        reasons (conformityCheck c ctx r) = reasons r
        \<and> compliant (conformityCheck c ctx r) = compliant r
        \<and> warnings (conformityCheck c ctx r) = warnings r @
            (if \<not> ai_act_status_conformity_assessed c
             then [''Tool has not undergone conformity assessment''] else []))
   \<and> (unknown_handling_ai_act_status ctx = Strict \<and> \<not> ai_act_status_conformity_assessed c \<longrightarrow>
        reasons (conformityCheck c ctx r)
          = reasons r @ [''Tool has not undergone conformity assessment'']
        \<and> \<not> compliant (conformityCheck c ctx r))
   \<and> (unknown_handling_certifications ctx \<noteq> Strict \<longrightarrow>
        reasons (certificationCheck c ctx r) = reasons r
        \<and> compliant (certificationCheck c ctx r) = compliant r
        \<and> warnings (certificationCheck c ctx r) = warnings r @
            (if certifications_required_any ctx \<noteq> []
                \<and> set (certifications c) \<inter> set (certifications_required_any ctx) = {}
             then [''Tool lacks preferred certifications: ''
                     @ join '', '' (certifications_required_any ctx)]
             else []))
   \<and> (unknown_handling_certifications ctx = Strict
        \<and> certifications_required_any ctx \<noteq> []
        \<and> set (certifications c) \<inter> set (certifications_required_any ctx) = {} \<longrightarrow>
        reasons (certificationCheck c ctx r)
          = reasons r @ [''Tool lacks required certifications. Required one of: ''
                           @ join '', '' (certifications_required_any ctx)]
        \<and> \<not> compliant (certificationCheck c ctx r))"
proof -
  have e1: "checkCompliance toolName m (ctx\<lparr>unknown_handling_ai_act_status := Escalate\<rparr>) w
     = checkCompliance toolName m (ctx\<lparr>unknown_handling_ai_act_status := Permissive\<rparr>) w"
    by (simp add: checkCompliance_def runChecks_escalate legacyOutcome_def unversionedOutcome_def
          split: option.splits)
  have e2: "checkCompliance toolName m (ctx\<lparr>unknown_handling_certifications := Escalate\<rparr>) w
     = checkCompliance toolName m (ctx\<lparr>unknown_handling_certifications := Permissive\<rparr>) w"
    by (simp add: checkCompliance_def runChecks_escalate legacyOutcome_def unversionedOutcome_def
          split: option.splits)
  have c1: "unknown_handling_ai_act_status ctx \<noteq> Strict \<longrightarrow>
        reasons (conformityCheck c ctx r) = reasons r
        \<and> compliant (conformityCheck c ctx r) = compliant r
        \<and> warnings (conformityCheck c ctx r) = warnings r @
            (if \<not> ai_act_status_conformity_assessed c
             then [''Tool has not undergone conformity assessment''] else [])"
    by (simp add: conformityCheck_def)
  have c2: "unknown_handling_ai_act_status ctx = Strict \<and> \<not> ai_act_status_conformity_assessed c \<longrightarrow>
        reasons (conformityCheck c ctx r)
          = reasons r @ [''Tool has not undergone conformity assessment'']
        \<and> \<not> compliant (conformityCheck c ctx r)"
    by (simp add: conformityCheck_def)
  have c3: "unknown_handling_certifications ctx \<noteq> Strict \<longrightarrow>
        reasons (certificationCheck c ctx r) = reasons r
        \<and> compliant (certificationCheck c ctx r) = compliant r
        \<and> warnings (certificationCheck c ctx r) = warnings r @
            (if certifications_required_any ctx \<noteq> []
                \<and> set (certifications c) \<inter> set (certifications_required_any ctx) = {}
             then [''Tool lacks preferred certifications: ''
                     @ join '', '' (certifications_required_any ctx)]
             else [])"
    by (auto simp: certificationCheck_def Let_def list_ex_overlap)
  have c4: "unknown_handling_certifications ctx = Strict
        \<and> certifications_required_any ctx \<noteq> []
        \<and> set (certifications c) \<inter> set (certifications_required_any ctx) = {} \<longrightarrow>
        reasons (certificationCheck c ctx r)
          = reasons r @ [''Tool lacks required certifications. Required one of: ''
                           @ join '', '' (certifications_required_any ctx)]
        \<and> \<not> compliant (certificationCheck c ctx r)"
    by (auto simp: certificationCheck_def Let_def list_ex_overlap)
  from e1 e2 c1 c2 c3 c4 show ?thesis by blast
qed

text \<open>
  The Beijing tool (not assessed, no required certification) under the EU context with
  each handling set to \<open>escalate\<close>, and under \<open>strict\<close>.
\<close>

theorem escalate_behaves_as_permissive_witness:
  "reasons (conformityCheck beijingCloudCompliance
              (euDeploymentContext\<lparr>unknown_handling_ai_act_status := Escalate\<rparr>) initial_result) = []
   \<and> warnings (conformityCheck beijingCloudCompliance
              (euDeploymentContext\<lparr>unknown_handling_ai_act_status := Escalate\<rparr>) initial_result)
       = [''Tool has not undergone conformity assessment'']
   \<and> reasons (conformityCheck beijingCloudCompliance euDeploymentContext initial_result)
       = [''Tool has not undergone conformity assessment'']
   \<and> reasons (certificationCheck beijingCloudCompliance
              (euDeploymentContext\<lparr>unknown_handling_certifications := Escalate\<rparr>) initial_result) = []
   \<and> warnings (certificationCheck beijingCloudCompliance
              (euDeploymentContext\<lparr>unknown_handling_certifications := Escalate\<rparr>) initial_result)
       = [''Tool lacks preferred certifications: ISO_27001, SOC2_TYPE_II'']
   \<and> reasons (certificationCheck beijingCloudCompliance
              (euDeploymentContext\<lparr>unknown_handling_certifications := Strict\<rparr>) initial_result)
       = [''Tool lacks required certifications. Required one of: ISO_27001, SOC2_TYPE_II'']"
  using escalate_behaves_as_permissive [of "''beijingcloud_compute''" "Some beijingCloudCompliance"
          "euDeploymentContext\<lparr>unknown_handling_ai_act_status := Escalate\<rparr>" eu_session
          beijingCloudCompliance initial_result]
        escalate_behaves_as_permissive [of "''beijingcloud_compute''" "Some beijingCloudCompliance"
          euDeploymentContext eu_session beijingCloudCompliance initial_result]
        escalate_behaves_as_permissive [of "''beijingcloud_compute''" "Some beijingCloudCompliance"
          "euDeploymentContext\<lparr>unknown_handling_certifications := Escalate\<rparr>" eu_session
          beijingCloudCompliance initial_result]
        escalate_behaves_as_permissive [of "''beijingcloud_compute''" "Some beijingCloudCompliance"
          "euDeploymentContext\<lparr>unknown_handling_certifications := Strict\<rparr>" eu_session
          beijingCloudCompliance initial_result]
  by (simp add: beijingCloudCompliance_def euDeploymentContext_def)

text \<open>
  C10. A declared processing location is never expanded: it is uppercased and looked up in
  the two expanded sets. The expansion of the required code \<open>EU\<close> holds member-country
  codes and not the string \<open>EU\<close>, so the location \<open>EU\<close> is rejected under
  required = [EU] and an empty prohibited list, and a versioned tool that declares it gets
  the location reason and is not compliant.
\<close>

theorem locations_compared_literally:
  "isLocationAllowed L required prohibited
     = (toUpperCase L \<in> expandAll required \<and> toUpperCase L \<notin> expandAll prohibited)
   \<and> ''EU'' \<notin> expandAll [''EU'']
   \<and> \<not> isLocationAllowed ''EU'' [''EU''] []
   \<and> (pec_version c \<noteq> [] \<and> processing_locations c = [''EU'']
        \<and> data_residency_required ctx = [''EU''] \<and> data_residency_prohibited ctx = []
      \<longrightarrow> location_reason ''EU'' \<in> set (reasons (fst (checkCompliance toolName (Some c) ctx w)))
          \<and> \<not> compliant (fst (checkCompliance toolName (Some c) ctx w)))"
proof -
  have lit: "isLocationAllowed L required prohibited
     = (toUpperCase L \<in> expandAll required \<and> toUpperCase L \<notin> expandAll prohibited)"
    by (auto simp: isLocationAllowed_def Let_def)
  have notin: "''EU'' \<notin> expandAll [''EU'']"
    by (simp add: expandAll_eq jurisdiction_defs)
  have rej: "\<not> isLocationAllowed ''EU'' [''EU''] []"
    by (simp add: isLocationAllowed_def Let_def expandAll_eq jurisdiction_defs)
  have chk: "location_reason ''EU'' \<in> set (reasons (fst (checkCompliance toolName (Some c) ctx w)))
          \<and> \<not> compliant (fst (checkCompliance toolName (Some c) ctx w))"
    if "pec_version c \<noteq> []" "processing_locations c = [''EU'']"
       "data_residency_required ctx = [''EU'']" "data_residency_prohibited ctx = []"
    using that rej
    by (simp add: checkCompliance_result runChecks_compliant runChecks_reasons locationCheck_reasons)
  from lit notin rej chk show ?thesis by blast
qed

text \<open>The demo's translation tool, declaring \<open>EU\<close>, under a context requiring \<open>EU\<close>.\<close>

theorem locations_compared_literally_witness:
  "location_reason ''EU'' \<in> set (reasons (fst (checkCompliance ''acme_translate''
       (Some (acmeTranslationCompliance\<lparr>processing_locations := [''EU'']\<rparr>))
       (euDeploymentContext\<lparr>data_residency_required := [''EU''], data_residency_prohibited := []\<rparr>)
       eu_session)))
   \<and> \<not> compliant (fst (checkCompliance ''acme_translate''
       (Some (acmeTranslationCompliance\<lparr>processing_locations := [''EU'']\<rparr>))
       (euDeploymentContext\<lparr>data_residency_required := [''EU''], data_residency_prohibited := []\<rparr>)
       eu_session))"
  using locations_compared_literally [of "''EU''" "[''EU'']" "[]"
      "acmeTranslationCompliance\<lparr>processing_locations := [''EU'']\<rparr>"
      "euDeploymentContext\<lparr>data_residency_required := [''EU''], data_residency_prohibited := []\<rparr>"
      "''acme_translate''" eu_session]
  by (simp add: acmeTranslationCompliance_def)

end
